theory Spec2Isabelle
  imports Main
begin

section \<open>Request values\<close>

text \<open>
  The handlers of \<^verbatim>\<open>src/server.js\<close> read the fields of a JSON body. A field is modelled
  as an optional string: \<open>None\<close> is a field that is absent (\<^verbatim>\<open>undefined\<close>) or
  \<^verbatim>\<open>null\<close>. JavaScript's truthiness test \<^verbatim>\<open>!x\<close> holds for an absent field and for
  the empty string, and the handlers use it for every required field.

  The password of a login request is kept as the JSON value it is, since the handler
  hands it to \<^verbatim>\<open>bcrypt.compare\<close> and to \<^verbatim>\<open>===\<close>, which both look at its type.
  \<open>JNum\<close> is a JSON number (a fraction behaves here as any non-zero number does) and
  \<open>JObject\<close> is any object or array.
\<close>

datatype jsvalue = JUndefined | JNull | JBool bool | JNum int | JStr string | JObject

text \<open>\<^verbatim>\<open>!v\<close> is the negation of \<open>js_truthy v\<close>.\<close>

definition js_truthy :: "jsvalue \<Rightarrow> bool" where
  "js_truthy v =
     (case v of
        JUndefined \<Rightarrow> False
      | JNull \<Rightarrow> False
      | JBool b \<Rightarrow> b
      | JNum n \<Rightarrow> n \<noteq> 0
      | JStr s \<Rightarrow> s \<noteq> []
      | JObject \<Rightarrow> True)"

text \<open>\<^verbatim>\<open>typeof v\<close>\<close>

definition typeof :: "jsvalue \<Rightarrow> string" where
  "typeof v =
     (case v of
        JUndefined \<Rightarrow> ''undefined''
      | JNull \<Rightarrow> ''object''
      | JBool b \<Rightarrow> ''boolean''
      | JNum n \<Rightarrow> ''number''
      | JStr s \<Rightarrow> ''string''
      | JObject \<Rightarrow> ''object'')"

type_synonym field = "string option"

definition truthy :: "field \<Rightarrow> bool" where
  "truthy v = (case v of None \<Rightarrow> False | Some s \<Rightarrow> s \<noteq> [])"

text \<open>\<^verbatim>\<open>x || null\<close>: a falsy value is stored as SQL NULL.\<close>

definition or_null :: "field \<Rightarrow> field" where
  "or_null v = (if truthy v then v else None)"

text \<open>The string bound to a statement parameter; only read behind a truthiness guard.\<close>

definition str :: "field \<Rightarrow> string" where
  "str v = (case v of None \<Rightarrow> [] | Some s \<Rightarrow> s)"

text \<open>\<^verbatim>\<open>s.startsWith(p)\<close>\<close>

definition startsWith :: "string \<Rightarrow> string \<Rightarrow> bool" where
  "startsWith s p = (take (length p) s = p)"

section \<open>Decimal rendering and padding\<close>

definition digit :: "nat \<Rightarrow> char" where
  "digit n = ''0123456789'' ! (n mod 10)"

text \<open>\<^verbatim>\<open>String(n)\<close> for a non-negative integer, and MySQL's cast of an integer to a string.\<close>

function decimal :: "nat \<Rightarrow> string" where
  "decimal n = (if n < 10 then [digit n] else decimal (n div 10) @ [digit n])"
  by pat_completeness auto
termination
  by (relation "measure (\<lambda>n. n)") auto

declare decimal.simps [simp del]

text \<open>
  \<^verbatim>\<open>s.padStart(n, c)\<close> of JavaScript with a one-character pad: a string that is already
  \<open>n\<close> long or longer is returned as it is.
\<close>

definition padStart :: "nat \<Rightarrow> char \<Rightarrow> string \<Rightarrow> string" where
  "padStart n c s = replicate (n - length s) c @ s"

text \<open>
  \<^verbatim>\<open>LPAD(s, n, c)\<close> of MySQL with a one-character pad: the result always has length
  \<open>n\<close>; a string longer than \<open>n\<close> is shortened to its first \<open>n\<close> characters.
\<close>

definition LPAD :: "string \<Rightarrow> nat \<Rightarrow> char \<Rightarrow> string" where
  "LPAD s n c = (if n \<le> length s then take n s else replicate (n - length s) c @ s)"

text \<open>Line 414 and line 710: \<^verbatim>\<open>`STU${String(userId).padStart(3, '0')}`\<close>\<close>

definition studentId_of :: "nat \<Rightarrow> string" where
  "studentId_of userId = ''STU'' @ padStart 3 (CHR ''0'') (decimal userId)"

text \<open>
  Lines 336 and 654:
  \<^verbatim>\<open>COALESCE(s.student_id, CONCAT('STU', LPAD(u.id, 3, '0')))\<close>, where the first argument
  is NULL when the account has no profile row or the profile row has no code.
\<close>

definition student_id_sql :: "string option \<Rightarrow> nat \<Rightarrow> string" where
  "student_id_sql stored uid =
     (case stored of Some code \<Rightarrow> code | None \<Rightarrow> ''STU'' @ LPAD (decimal uid) 3 (CHR ''0''))"

section \<open>Tables\<close>

text \<open>
  Modelled from the spec: the table declarations (the SQL schema) are not among the
  sources; the columns below are the ones the statements of \<^verbatim>\<open>src/server.js\<close> read
  or write, with the meaning section 3 of the specification gives them. Identifiers are
  natural numbers assigned by an AUTO\_INCREMENT counter, timestamps and dates are
  natural numbers, nullable columns are options. SQL's \<open>=\<close> on strings is modelled as
  equality of the strings.
\<close>

record user_row =
  u_id :: nat
  u_email :: string
  u_password :: string
  u_role :: string
  u_first_name :: string
  u_last_name :: string
  u_phone :: "string option"
  u_is_active :: bool
  u_created_at :: nat

record student_row =
  s_user_id :: nat
  s_student_id :: "string option"
  s_roll_number :: "string option"
  s_class_id :: "nat option"
  s_parent_name :: "string option"
  s_parent_phone :: "string option"
  s_address :: "string option"
  s_admission_date :: "nat option"
  s_date_of_birth :: "nat option"
  s_is_active :: bool

record class_row =
  c_id :: nat
  c_grade :: string
  c_section :: string
  c_name :: string
  c_is_active :: bool

record db =
  users :: "user_row list"
  students :: "student_row list"
  classes :: "class_row list"
  next_user_id :: nat

section \<open>Environment\<close>

text \<open>
  The libraries the handlers call are parameters: \<^verbatim>\<open>bcrypt.hash(p, 12)\<close>,
  \<^verbatim>\<open>bcrypt.compare(p, h)\<close> on two strings (\<open>Inl\<close> is the error of a rejected promise,
  \<open>Inr\<close> the boolean it resolves to), \<^verbatim>\<open>jwt.sign\<close> and \<^verbatim>\<open>jwt.verify\<close> with the
  server's secret (\<open>Inl\<close> is the error passed to the callback), and the clock of the
  database.
\<close>

record claims =
  cl_userId :: nat
  cl_email :: string
  cl_role :: string

record env =
  bcrypt_hash :: "string \<Rightarrow> string"
  bcrypt_compare :: "string \<Rightarrow> string \<Rightarrow> string + bool"
  jwt_sign :: "claims \<Rightarrow> string"
  jwt_verify :: "string \<Rightarrow> string + claims"
  clock :: nat

text \<open>
  Every \<^verbatim>\<open>pool.execute\<close> may reject. \<open>F k = Some msg\<close> says that the \<open>k\<close>-th
  \<^verbatim>\<open>pool.execute\<close> call of the handler, counted from 0 in source order, rejects with an
  error whose message is \<open>msg\<close>; a rejected statement changes no table.
\<close>

type_synonym faults = "nat \<Rightarrow> string option"

section \<open>Responses\<close>

text \<open>
  \<open>Failed st msg\<close> is \<^verbatim>\<open>res.status(st).json({success: false, message: msg})\<close>,
  \<open>Done st msg x\<close> is \<^verbatim>\<open>res.status(st).json({success: true, message: msg, ...x})\<close>
  and \<open>Plain x\<close> is \<^verbatim>\<open>res.json(x)\<close> (status 200).
\<close>

datatype 'a outcome = Failed nat string | Done nat string 'a | Plain 'a

record public_user =
  pu_id :: nat
  pu_email :: string
  pu_role :: string
  pu_first_name :: string
  pu_last_name :: string

record session =
  se_token :: string
  se_user :: public_user

record created_student =
  cs_studentId_top :: nat
  cs_id :: nat
  cs_studentId :: string
  cs_firstName :: string
  cs_lastName :: string
  cs_email :: string

record student_view =
  v_id :: nat
  v_first_name :: string
  v_last_name :: string
  v_email :: string
  v_phone :: "string option"
  v_roll_no :: "string option"
  v_parent_name :: "string option"
  v_parent_phone :: "string option"
  v_address :: "string option"
  v_admission_date :: "nat option"
  v_date_of_birth :: "nat option"
  v_is_active :: bool
  v_created_at :: nat
  v_grade :: "string option"
  v_section :: "string option"
  v_class_name :: "string option"
  v_student_id :: string

section \<open>authenticateToken (lines 31 to 62)\<close>

text \<open>
  \<^verbatim>\<open>h.split(' ')\<close>: the pieces between single spaces; never an empty list.
\<close>

fun split_sp :: "string \<Rightarrow> string list" where
  "split_sp [] = [[]]"
| "split_sp (c # cs) =
     (if c = CHR '' '' then [] # split_sp cs
      else (case split_sp cs of [] \<Rightarrow> [[c]] | w # ws \<Rightarrow> (c # w) # ws))"

text \<open>
  \<^verbatim>\<open>const token = authHeader && authHeader.split(' ')[1]\<close>, which is falsy when the header
  is absent or empty, when it has no second piece, and when the second piece is empty.
  \<open>bearer\<close> is the token when it is truthy.
\<close>

definition bearer :: "string option \<Rightarrow> string option" where
  "bearer authHeader =
     (case authHeader of
        None \<Rightarrow> None
      | Some h \<Rightarrow>
          (if h = [] then None
           else (case split_sp h of
                   _ # t # _ \<Rightarrow> (if t = [] then None else Some t)
                 | _ \<Rightarrow> None)))"

datatype auth_result = Rejected nat string | Next claims

definition authenticateToken :: "env \<Rightarrow> string option \<Rightarrow> auth_result" where
  "authenticateToken E authHeader =
     (case bearer authHeader of
        None \<Rightarrow> Rejected 401 ''Access token required''
      | Some t \<Rightarrow>
          (case jwt_verify E t of
             Inl err \<Rightarrow> Rejected 403 ''Invalid or expired token''
           | Inr decoded \<Rightarrow> Next decoded))"

section \<open>POST /api/auth/login (lines 152 to 234)\<close>

text \<open>
  \<^verbatim>\<open>await bcrypt.compare(password, user.password)\<close> with the password as it came in the
  body. bcryptjs checks the types of its arguments first: unless both are strings the
  promise rejects with \<^verbatim>\<open>Illegal arguments\<close>, and the \<^verbatim>\<open>await\<close> throws.
\<close>

definition bcryptjs_compare :: "env \<Rightarrow> jsvalue \<Rightarrow> string \<Rightarrow> string + bool" where
  "bcryptjs_compare E s hash =
     (case s of
        JStr p \<Rightarrow> bcrypt_compare E p hash
      | _ \<Rightarrow> Inl (''Illegal arguments: '' @ typeof s @ '', string''))"

text \<open>
  Lines 183 to 191: the verifier is chosen by the prefix of the stored value. \<open>Inl\<close> is
  an exception thrown out of the check, \<open>Inr\<close> the value of \<^verbatim>\<open>isPasswordValid\<close>. The strict
  equality \<^verbatim>\<open>password === user.password\<close> holds only for a string equal to the stored one.
\<close>

definition isPasswordValid :: "env \<Rightarrow> jsvalue \<Rightarrow> string \<Rightarrow> string + bool" where
  "isPasswordValid E password stored =
     (if startsWith stored ''$2'' then bcryptjs_compare E password stored
      else Inr (password = JStr stored))"

definition public_view :: "user_row \<Rightarrow> public_user" where
  "public_view u =
     \<lparr>pu_id = u_id u, pu_email = u_email u, pu_role = u_role u,
      pu_first_name = u_first_name u, pu_last_name = u_last_name u\<rparr>"

text \<open>
  An exception of the credential check reaches the \<^verbatim>\<open>catch\<close> of lines 227 to 233, as the
  rejection of the lookup does.
\<close>

definition login :: "env \<Rightarrow> faults \<Rightarrow> field \<Rightarrow> jsvalue \<Rightarrow> db \<Rightarrow> session outcome" where
  "login E F email password d =
     (if \<not> truthy email \<or> \<not> js_truthy password
      then Failed 400 ''Email and password are required''
      else (case F 0 of
              Some err \<Rightarrow> Failed 500 ''Internal server error''
            | None \<Rightarrow>
               (case filter (\<lambda>u. u_email u = str email \<and> u_is_active u) (users d) of
                  [] \<Rightarrow> Failed 401 ''Invalid email or password''
                | u # _ \<Rightarrow>
                    (case isPasswordValid E password (u_password u) of
                       Inl err \<Rightarrow> Failed 500 ''Internal server error''
                     | Inr valid \<Rightarrow>
                         (if \<not> valid
                          then Failed 401 ''Invalid email or password''
                          else Done 200 ''Login successful''
                                 \<lparr>se_token = jwt_sign E \<lparr>cl_userId = u_id u,
                                                         cl_email = u_email u,
                                                         cl_role = u_role u\<rparr>,
                                  se_user = public_view u\<rparr>)))))"

section \<open>POST /api/auth/register (lines 237 to 306)\<close>

record register_body =
  r_email :: field
  r_password :: field
  r_firstName :: field
  r_lastName :: field
  r_role :: field
  r_phone :: field

text \<open>INSERT INTO users: the row gets the next identifier, which is \<^verbatim>\<open>insertId\<close>.\<close>

definition insert_user :: "user_row \<Rightarrow> db \<Rightarrow> db" where
  "insert_user row d =
     d\<lparr>users := users d @ [row\<lparr>u_id := next_user_id d\<rparr>],
       next_user_id := Suc (next_user_id d)\<rparr>"

definition register :: "env \<Rightarrow> faults \<Rightarrow> register_body \<Rightarrow> db \<Rightarrow> session outcome \<times> db" where
  "register E F b d =
     (if \<not> truthy (r_email b) \<or> \<not> truthy (r_password b) \<or> \<not> truthy (r_firstName b)
         \<or> \<not> truthy (r_lastName b) \<or> \<not> truthy (r_role b)
      then (Failed 400 ''Email, password, first name, last name, and role are required'', d)
      else (case F 0 of
              Some err \<Rightarrow> (Failed 500 ''Internal server error'', d)
            | None \<Rightarrow>
               (if filter (\<lambda>u. u_email u = str (r_email b)) (users d) \<noteq> []
                then (Failed 409 ''User with this email already exists'', d)
                else (case F 1 of
                        Some err \<Rightarrow> (Failed 500 ''Internal server error'', d)
                      | None \<Rightarrow>
                         (let hashedPassword = bcrypt_hash E (str (r_password b));
                              userId = next_user_id d;
                              row = \<lparr>u_id = userId, u_email = str (r_email b),
                                     u_password = hashedPassword, u_role = str (r_role b),
                                     u_first_name = str (r_firstName b),
                                     u_last_name = str (r_lastName b),
                                     u_phone = or_null (r_phone b), u_is_active = True,
                                     u_created_at = clock E\<rparr>
                          in (Done 201 ''Registration successful!''
                                \<lparr>se_token = jwt_sign E \<lparr>cl_userId = userId,
                                                        cl_email = str (r_email b),
                                                        cl_role = str (r_role b)\<rparr>,
                                 se_user = \<lparr>pu_id = userId, pu_email = str (r_email b),
                                            pu_role = str (r_role b),
                                            pu_first_name = str (r_firstName b),
                                            pu_last_name = str (r_lastName b)\<rparr>\<rparr>,
                              insert_user row d))))))"

section \<open>Student reads (lines 313 to 363 and 629 to 680)\<close>

text \<open>
  A LEFT JOIN keeps the row of its left side once, with NULLs, when nothing on the right
  matches, and once per match otherwise.
\<close>

definition left_join :: "'a list \<Rightarrow> 'a option list" where
  "left_join ms = (if ms = [] then [None] else map Some ms)"

text \<open>
  The selected columns. The result object has one \<^verbatim>\<open>student_id\<close> key, and the later
  column of that name, the COALESCE, is the one it holds.
\<close>

definition mk_view :: "user_row \<Rightarrow> student_row option \<Rightarrow> class_row option \<Rightarrow> student_view" where
  "mk_view u s c =
     \<lparr>v_id = u_id u, v_first_name = u_first_name u, v_last_name = u_last_name u,
      v_email = u_email u, v_phone = u_phone u,
      v_roll_no = Option.bind s s_roll_number,
      v_parent_name = Option.bind s s_parent_name,
      v_parent_phone = Option.bind s s_parent_phone,
      v_address = Option.bind s s_address,
      v_admission_date = Option.bind s s_admission_date,
      v_date_of_birth = Option.bind s s_date_of_birth,
      v_is_active = u_is_active u, v_created_at = u_created_at u,
      v_grade = map_option c_grade c, v_section = map_option c_section c,
      v_class_name = map_option c_name c,
      v_student_id = student_id_sql (Option.bind s s_student_id) (u_id u)\<rparr>"

text \<open>
  \<^verbatim>\<open>FROM users u LEFT JOIN students s ON u.id = s.user_id
  LEFT JOIN classes c ON s.class_id = c.id\<close>, for one row \<open>u\<close> of users.
\<close>

definition joined :: "db \<Rightarrow> user_row \<Rightarrow> student_view list" where
  "joined d u =
     concat (map (\<lambda>s. map (mk_view u s)
                         (left_join (case s of
                                       None \<Rightarrow> []
                                     | Some sr \<Rightarrow>
                                         filter (\<lambda>c. s_class_id sr = Some (c_id c)) (classes d))))
                 (left_join (filter (\<lambda>s. s_user_id s = u_id u) (students d))))"

text \<open>
  \<^verbatim>\<open>ORDER BY u.created_at DESC\<close>; the order of rows with equal timestamps is not
  fixed by SQL.
\<close>

definition listActiveStudents :: "faults \<Rightarrow> db \<Rightarrow> student_view list outcome" where
  "listActiveStudents F d =
     (case F 0 of
        Some err \<Rightarrow> Failed 500 (''Error fetching students: '' @ err)
      | None \<Rightarrow>
          Plain (concat (map (joined d)
                   (rev (sort_key u_created_at
                      (filter (\<lambda>u. u_role u = ''student'' \<and> u_is_active u) (users d)))))))"

definition getStudent :: "faults \<Rightarrow> nat \<Rightarrow> db \<Rightarrow> student_view outcome" where
  "getStudent F i d =
     (case F 0 of
        Some err \<Rightarrow> Failed 500 (''Error fetching student: '' @ err)
      | None \<Rightarrow>
          (case concat (map (joined d)
                  (filter (\<lambda>u. u_id u = i \<and> u_role u = ''student'') (users d))) of
             [] \<Rightarrow> Failed 404 ''Student not found''
           | v # _ \<Rightarrow> Plain v))"

section \<open>Student writes (lines 366 to 626)\<close>

text \<open>
  The route parameter \<^verbatim>\<open>:id\<close> is bound to the integer column \<^verbatim>\<open>users.id\<close>; it is
  modelled as the natural number it denotes. The statements inside an inner
  \<^verbatim>\<open>try\<close>/\<^verbatim>\<open>catch\<close> are the best-effort ones: their rejection is swallowed, while the
  rejection of any other statement reaches the outer \<^verbatim>\<open>catch\<close> and gives 500.
\<close>

record student_body =
  b_firstName :: field
  b_lastName :: field
  b_email :: field
  b_phone :: field
  b_grade :: field
  b_section :: field
  b_rollNo :: field
  b_parentName :: field
  b_isActive :: "bool option"

text \<open>
  \<^verbatim>\<open>SELECT id FROM classes WHERE grade = ? AND section = ? AND is_active = TRUE LIMIT 1\<close>
  followed by \<^verbatim>\<open>if (classResult.length > 0) classId = classResult[0].id\<close>.
\<close>

definition find_class :: "string \<Rightarrow> string \<Rightarrow> db \<Rightarrow> nat option" where
  "find_class grade section d =
     (case filter (\<lambda>c. c_grade c = grade \<and> c_section c = section \<and> c_is_active c) (classes d) of
        [] \<Rightarrow> None
      | c # _ \<Rightarrow> Some (c_id c))"

definition createStudent :: "env \<Rightarrow> faults \<Rightarrow> student_body \<Rightarrow> db \<Rightarrow> created_student outcome \<times> db" where
  "createStudent E F b d =
     (if \<not> truthy (b_firstName b) \<or> \<not> truthy (b_lastName b) \<or> \<not> truthy (b_email b)
      then (Failed 400 ''First name, last name, and email are required'', d)
      else (case F 0 of
              Some err \<Rightarrow> (Failed 500 (''Error creating student: '' @ err), d)
            | None \<Rightarrow>
               (if filter (\<lambda>u. u_email u = str (b_email b)) (users d) \<noteq> []
                then (Failed 409 ''User with this email already exists'', d)
                else (case F 1 of
                        Some err \<Rightarrow> (Failed 500 (''Error creating student: '' @ err), d)
                      | None \<Rightarrow>
                         (let hashedPassword = bcrypt_hash E ''student123'';
                              userId = next_user_id d;
                              d1 = insert_user
                                     \<lparr>u_id = userId, u_email = str (b_email b),
                                      u_password = hashedPassword, u_role = ''student'',
                                      u_first_name = str (b_firstName b),
                                      u_last_name = str (b_lastName b),
                                      u_phone = or_null (b_phone b),
                                      u_is_active = (b_isActive b \<noteq> Some False),
                                      u_created_at = clock E\<rparr> d;
                              studentId = studentId_of userId;
                              classId =
                                (if truthy (b_grade b) \<and> truthy (b_section b)
                                 then (case F 2 of
                                         Some err \<Rightarrow> None
                                       | None \<Rightarrow> find_class (str (b_grade b)) (str (b_section b)) d1)
                                 else None);
                              d2 =
                                (case F 3 of
                                   Some err \<Rightarrow> d1
                                 | None \<Rightarrow>
                                     d1\<lparr>students := students d1 @
                                          [\<lparr>s_user_id = userId, s_student_id = Some studentId,
                                            s_roll_number = or_null (b_rollNo b),
                                            s_class_id = classId,
                                            s_parent_name = or_null (b_parentName b),
                                            s_parent_phone = None, s_address = None,
                                            s_admission_date = Some (clock E),
                                            s_date_of_birth = None, s_is_active = True\<rparr>]\<rparr>)
                          in (Done 201 ''Student created successfully''
                                \<lparr>cs_studentId_top = userId, cs_id = userId,
                                 cs_studentId = studentId,
                                 cs_firstName = str (b_firstName b),
                                 cs_lastName = str (b_lastName b),
                                 cs_email = str (b_email b)\<rparr>,
                              d2))))))"

text \<open>
  Lines 535 to 559, the second step of the update. The class lookup and the UPDATE of
  students are in one \<^verbatim>\<open>try\<close>: when the lookup rejects, the UPDATE is not run.
\<close>

definition update_profile :: "faults \<Rightarrow> nat \<Rightarrow> student_body \<Rightarrow> db \<Rightarrow> db" where
  "update_profile F i b d1 =
     (case (if truthy (b_grade b) \<and> truthy (b_section b)
            then (case F 3 of
                    Some err \<Rightarrow> None
                  | None \<Rightarrow> Some (find_class (str (b_grade b)) (str (b_section b)) d1))
            else Some None) of
        None \<Rightarrow> d1
      | Some classId \<Rightarrow>
          (case F 4 of
             Some err \<Rightarrow> d1
           | None \<Rightarrow>
               d1\<lparr>students :=
                    map (\<lambda>s. if s_user_id s = i
                              then s\<lparr>s_roll_number := or_null (b_rollNo b),
                                     s_class_id := classId,
                                     s_parent_name := or_null (b_parentName b)\<rparr>
                              else s)
                        (students d1)\<rparr>))"

definition updateStudent :: "faults \<Rightarrow> nat \<Rightarrow> student_body \<Rightarrow> db \<Rightarrow> unit outcome \<times> db" where
  "updateStudent F i b d =
     (if \<not> truthy (b_firstName b) \<or> \<not> truthy (b_lastName b) \<or> \<not> truthy (b_email b)
      then (Failed 400 ''First name, last name, and email are required'', d)
      else (case F 0 of
              Some err \<Rightarrow> (Failed 500 (''Error updating student: '' @ err), d)
            | None \<Rightarrow>
               (if filter (\<lambda>u. u_id u = i \<and> u_role u = ''student'') (users d) = []
                then (Failed 404 ''Student not found'', d)
                else (case F 1 of
                        Some err \<Rightarrow> (Failed 500 (''Error updating student: '' @ err), d)
                      | None \<Rightarrow>
                         (if filter (\<lambda>u. u_email u = str (b_email b) \<and> u_id u \<noteq> i) (users d) \<noteq> []
                          then (Failed 409 ''Email already in use by another user'', d)
                          else (case F 2 of
                                  Some err \<Rightarrow> (Failed 500 (''Error updating student: '' @ err), d)
                                | None \<Rightarrow>
                                   (let d1 = d\<lparr>users :=
                                               map (\<lambda>u. if u_id u = i \<and> u_role u = ''student''
                                                         then u\<lparr>u_first_name := str (b_firstName b),
                                                                u_last_name := str (b_lastName b),
                                                                u_email := str (b_email b),
                                                                u_phone := or_null (b_phone b),
                                                                u_is_active := (b_isActive b \<noteq> Some False)\<rparr>
                                                         else u)
                                                   (users d)\<rparr>
                                    in (Done 200 ''Student updated successfully'' (),
                                        update_profile F i b d1))))))))"

definition deleteStudent :: "faults \<Rightarrow> nat \<Rightarrow> db \<Rightarrow> unit outcome \<times> db" where
  "deleteStudent F i d =
     (case F 0 of
        Some err \<Rightarrow> (Failed 500 (''Error deleting student: '' @ err), d)
      | None \<Rightarrow>
         (if filter (\<lambda>u. u_id u = i \<and> u_role u = ''student'') (users d) = []
          then (Failed 404 ''Student not found'', d)
          else (case F 1 of
                  Some err \<Rightarrow> (Failed 500 (''Error deleting student: '' @ err), d)
                | None \<Rightarrow>
                   (let d1 = d\<lparr>users :=
                               map (\<lambda>u. if u_id u = i \<and> u_role u = ''student''
                                         then u\<lparr>u_is_active := False\<rparr> else u)
                                   (users d)\<rparr>;
                        d2 = (case F 2 of
                                Some err \<Rightarrow> d1
                              | None \<Rightarrow>
                                  d1\<lparr>students :=
                                       map (\<lambda>s. if s_user_id s = i
                                                 then s\<lparr>s_is_active := False\<rparr> else s)
                                           (students d1)\<rparr>)
                    in (Done 200 ''Student deleted successfully'' (), d2)))))"

section \<open>GET /api/debug/create-test-student (lines 683 to 733)\<close>

text \<open>
  The debug route inserts one fixed student account unless its email is taken. The reply
  carries the identifier and, when the account was created, the student code.
\<close>

record test_student =
  t_studentId :: nat
  t_details_studentId :: "string option"

definition createTestStudent :: "env \<Rightarrow> faults \<Rightarrow> db \<Rightarrow> test_student outcome \<times> db" where
  "createTestStudent E F d =
     (case F 0 of
        Some err \<Rightarrow> (Failed 500 (''Error creating test student: '' @ err), d)
      | None \<Rightarrow>
         (case filter (\<lambda>u. u_email u = ''test.student@example.com'') (users d) of
            existing # _ \<Rightarrow>
              (Done 200 ''Test student already exists''
                 \<lparr>t_studentId = u_id existing, t_details_studentId = None\<rparr>, d)
          | [] \<Rightarrow>
              (case F 1 of
                 Some err \<Rightarrow> (Failed 500 (''Error creating test student: '' @ err), d)
               | None \<Rightarrow>
                  (let hashedPassword = bcrypt_hash E ''student123'';
                       userId = next_user_id d;
                       d1 = insert_user
                              \<lparr>u_id = userId, u_email = ''test.student@example.com'',
                               u_password = hashedPassword, u_role = ''student'',
                               u_first_name = ''Test'', u_last_name = ''Student'',
                               u_phone = Some ''1234567890'', u_is_active = True,
                               u_created_at = clock E\<rparr> d;
                       studentId = studentId_of userId
                   in (Done 200 ''Test student created successfully''
                         \<lparr>t_studentId = userId, t_details_studentId = Some studentId\<rparr>,
                       d1)))))"

section \<open>Invariants of the users table\<close>

text \<open>No two account rows share an email, whatever their active flags.\<close>

definition unique_emails :: "db \<Rightarrow> bool" where
  "unique_emails d = distinct (map u_email (users d))"

text \<open>
  The primary key: identifiers are distinct and below the AUTO\_INCREMENT counter.
\<close>

definition primary_key :: "db \<Rightarrow> bool" where
  "primary_key d = (distinct (map u_id (users d)) \<and> list_all (\<lambda>u. u_id u < next_user_id d) (users d))"

section \<open>Requests that write\<close>

text \<open>
  The five routes that change the tables, and a server that handles a sequence of such
  requests one after the other. The routes that only read (login, the two student reads
  and the class list) leave every table as it is.
\<close>

datatype request =
    Register faults register_body
  | CreateStudent faults student_body
  | UpdateStudent faults nat student_body
  | DeleteStudent faults nat
  | CreateTestStudent faults

fun handle :: "env \<Rightarrow> request \<Rightarrow> db \<Rightarrow> db" where
  "handle E (Register F b) d = snd (register E F b d)"
| "handle E (CreateStudent F b) d = snd (createStudent E F b d)"
| "handle E (UpdateStudent F i b) d = snd (updateStudent F i b d)"
| "handle E (DeleteStudent F i) d = snd (deleteStudent F i d)"
| "handle E (CreateTestStudent F) d = snd (createTestStudent E F d)"

fun serve :: "env \<Rightarrow> request list \<Rightarrow> db \<Rightarrow> db" where
  "serve E [] d = d"
| "serve E (r # rs) d = serve E rs (handle E r d)"

section \<open>A concrete instance\<close>

text \<open>
  A small database and toy libraries on which the handlers are evaluated: an
  administrator with a hashed credential, an active student with a legacy plaintext
  credential and a profile, and a student account that was soft-deleted.
\<close>

definition test_env :: env where
  "test_env =
     \<lparr>bcrypt_hash = (\<lambda>p. ''$2b$12$'' @ p),
      bcrypt_compare = (\<lambda>p h. Inr (h = ''$2b$12$'' @ p)),
      jwt_sign = (\<lambda>c. ''tok-'' @ cl_email c),
      jwt_verify = (\<lambda>t. if t = ''good''
                          then Inr \<lparr>cl_userId = 1, cl_email = ''a@x.com'', cl_role = ''admin''\<rparr>
                          else Inl ''jwt malformed''),
      clock = 7\<rparr>"

definition no_faults :: faults where
  "no_faults = (\<lambda>k. None)"

definition admin_row :: user_row where
  "admin_row =
     \<lparr>u_id = 1, u_email = ''a@x.com'', u_password = ''$2b$12$pw'', u_role = ''admin'',
      u_first_name = ''A'', u_last_name = ''B'', u_phone = None, u_is_active = True,
      u_created_at = 1\<rparr>"

definition jo_row :: user_row where
  "jo_row =
     \<lparr>u_id = 2, u_email = ''jo@x.com'', u_password = ''secret'', u_role = ''student'',
      u_first_name = ''Jo'', u_last_name = ''Doe'', u_phone = None, u_is_active = True,
      u_created_at = 2\<rparr>"

definition old_row :: user_row where
  "old_row =
     \<lparr>u_id = 3, u_email = ''old@x.com'', u_password = ''gone'', u_role = ''student'',
      u_first_name = ''Old'', u_last_name = ''Row'', u_phone = None, u_is_active = False,
      u_created_at = 3\<rparr>"

definition jo_profile :: student_row where
  "jo_profile =
     \<lparr>s_user_id = 2, s_student_id = Some ''STU002'', s_roll_number = Some ''17'',
      s_class_id = Some 1, s_parent_name = Some ''Pat Doe'', s_parent_phone = None,
      s_address = None, s_admission_date = Some 2, s_date_of_birth = None,
      s_is_active = True\<rparr>"

definition test_db :: db where
  "test_db =
     \<lparr>users = [admin_row, jo_row, old_row],
      students = [jo_profile],
      classes =
        [\<lparr>c_id = 1, c_grade = ''5'', c_section = ''A'', c_name = ''Grade 5 A'',
          c_is_active = True\<rparr>],
      next_user_id = 4\<rparr>"

definition new_register :: register_body where
  "new_register =
     \<lparr>r_email = Some ''new@x.com'', r_password = Some ''pw'', r_firstName = Some ''New'',
      r_lastName = Some ''Bee'', r_role = Some ''student'', r_phone = None\<rparr>"

definition amy_body :: student_body where
  "amy_body =
     \<lparr>b_firstName = Some ''Amy'', b_lastName = Some ''Lee'', b_email = Some ''amy@x.com'',
      b_phone = None, b_grade = Some ''5'', b_section = Some ''A'', b_rollNo = Some ''9'',
      b_parentName = Some ''Pa Lee'', b_isActive = None\<rparr>"

lemmas test_defs = test_env_def test_db_def no_faults_def admin_row_def jo_row_def old_row_def
  jo_profile_def new_register_def amy_body_def truthy_def js_truthy_def str_def startsWith_def
  or_null_def

section \<open>Student codes\<close>

lemma decimal_length_small:
  "n < 1000 \<Longrightarrow> length (decimal n) \<le> 3"
proof -
  assume n: "n < 1000"
  have one: "\<And>k. k < 10 \<Longrightarrow> length (decimal k) = 1"
    by (subst decimal.simps) simp
  have two: "\<And>k. k < 100 \<Longrightarrow> length (decimal k) \<le> 2"
  proof -
    fix k :: nat
    assume "k < 100"
    then have "k div 10 < 10" by simp
    then show "length (decimal k) \<le> 2"
      using one [of "k div 10"] by (subst decimal.simps) simp
  qed
  from n have "n div 10 < 100" by simp
  then show ?thesis
    using two [of "n div 10"] by (subst decimal.simps) simp
qed

lemma studentId_fallback_agree_small:
  "uid < 1000 \<Longrightarrow> student_id_sql None uid = studentId_of uid"
proof -
  assume "uid < 1000"
  then have len: "length (decimal uid) \<le> 3"
    by (rule decimal_length_small)
  show ?thesis
  proof (cases "length (decimal uid) = 3")
    case True
    then show ?thesis
      by (simp add: student_id_sql_def studentId_of_def LPAD_def padStart_def)
  next
    case False
    with len have "length (decimal uid) < 3" by simp
    then show ?thesis
      by (simp add: student_id_sql_def studentId_of_def LPAD_def padStart_def)
  qed
qed

text \<open>
  C4. The code returned by createStudent is \<open>STU\<close> followed by the identifier padded
  with zeros to three digits, and the fallback computed on read is meant to be the same
  string. At identifier 1000 the two differ: JavaScript's \<open>padStart\<close> leaves the four
  digits alone and createStudent returns \<open>STU1000\<close>, while MySQL's \<open>LPAD\<close> cuts the
  digits to three and the read path shows \<open>STU100\<close>, which is also the code of
  account 100. The last conjunct runs the two handlers: a student created with
  identifier 1000 whose profile insert failed is told \<open>STU1000\<close> and is then read back
  with \<open>STU100\<close>.
\<close>

theorem student_code_diverges_at_1000:
  "studentId_of 1000 = ''STU1000'' \<and> student_id_sql None 1000 = ''STU100'' \<and>
   student_id_sql None 100 = ''STU100'' \<and>
   (\<exists>r d' v.
      createStudent test_env (no_faults(3 := Some ''no such table'')) amy_body
          (test_db\<lparr>next_user_id := 1000\<rparr>)
        = (Done 201 ''Student created successfully'' r, d') \<and>
      cs_id r = 1000 \<and> cs_studentId r = ''STU1000'' \<and>
      getStudent no_faults 1000 d' = Plain v \<and> v_id v = 1000 \<and> v_student_id v = ''STU100'')"
proof -
  have a: "studentId_of 1000 = ''STU1000''"
    by (simp add: studentId_of_def padStart_def decimal.simps digit_def)
  have b: "student_id_sql None 1000 = ''STU100''" and c: "student_id_sql None 100 = ''STU100''"
    by (simp_all add: student_id_sql_def LPAD_def decimal.simps digit_def)
  obtain r d' where run: "createStudent test_env (no_faults(3 := Some ''no such table'')) amy_body
      (test_db\<lparr>next_user_id := 1000\<rparr>) = (Done 201 ''Student created successfully'' r, d')"
    and r: "cs_id r = 1000" "cs_studentId r = studentId_of 1000"
    and us: "users d' = users test_db @
        [\<lparr>u_id = 1000, u_email = ''amy@x.com'', u_password = ''$2b$12$student123'',
          u_role = ''student'', u_first_name = ''Amy'', u_last_name = ''Lee'', u_phone = None,
          u_is_active = True, u_created_at = 7\<rparr>]"
    and ss: "students d' = students test_db"
    by (simp add: createStudent_def Let_def insert_user_def test_defs)
  have "filter (\<lambda>u. u_id u = 1000 \<and> u_role u = ''student'') (users d') =
        [\<lparr>u_id = 1000, u_email = ''amy@x.com'', u_password = ''$2b$12$student123'',
          u_role = ''student'', u_first_name = ''Amy'', u_last_name = ''Lee'', u_phone = None,
          u_is_active = True, u_created_at = 7\<rparr>]"
    unfolding us by (simp add: test_defs)
  moreover have "filter (\<lambda>s. s_user_id s = 1000) (students d') = []"
    unfolding ss by (simp add: test_defs)
  ultimately have "getStudent no_faults 1000 d' =
      Plain (mk_view \<lparr>u_id = 1000, u_email = ''amy@x.com'', u_password = ''$2b$12$student123'',
          u_role = ''student'', u_first_name = ''Amy'', u_last_name = ''Lee'', u_phone = None,
          u_is_active = True, u_created_at = 7\<rparr> None None)"
    by (simp add: getStudent_def joined_def left_join_def no_faults_def)
  moreover have "v_id (mk_view \<lparr>u_id = 1000, u_email = ''amy@x.com'', u_password = ''$2b$12$student123'',
          u_role = ''student'', u_first_name = ''Amy'', u_last_name = ''Lee'', u_phone = None,
          u_is_active = True, u_created_at = 7\<rparr> None None) = 1000"
    and "v_student_id (mk_view \<lparr>u_id = 1000, u_email = ''amy@x.com'', u_password = ''$2b$12$student123'',
          u_role = ''student'', u_first_name = ''Amy'', u_last_name = ''Lee'', u_phone = None,
          u_is_active = True, u_created_at = 7\<rparr> None None) = ''STU100''"
    by (simp_all add: mk_view_def b)
  ultimately show ?thesis
    using a b c run r by auto
qed

text \<open>The code told at creation and the code read back are different strings.\<close>

theorem student_code_diverges_at_1000_witness:
  "studentId_of 1000 \<noteq> student_id_sql None 1000"
  using student_code_diverges_at_1000 by simp

section \<open>Token verification\<close>

lemma split_sp_nospace: "CHR '' '' \<notin> set t \<Longrightarrow> split_sp t = [t]"
  by (induction t) auto

lemma split_sp_append:
  "CHR '' '' \<notin> set a \<Longrightarrow> split_sp (a @ CHR '' '' # t) = a # split_sp t"
  by (induction a) auto

text \<open>A header made of a scheme word, one space and a non-empty token presents that token.\<close>

lemma bearer_scheme:
  "CHR '' '' \<notin> set a \<Longrightarrow> CHR '' '' \<notin> set t \<Longrightarrow> t \<noteq> [] \<Longrightarrow>
   bearer (Some (a @ CHR '' '' # t)) = Some t"
  by (simp add: bearer_def split_sp_append split_sp_nospace)

text \<open>
  C9. authenticateToken answers 401 exactly when the request presents no token (the
  Authorization header is absent, or its second space-separated piece is absent or empty),
  and 403 exactly when a token is presented and \<^verbatim>\<open>jwt.verify\<close> reports an error for it
  (invalid, malformed or expired); a token that verifies yields the decoded claims. No
  other rejection exists.
\<close>

theorem authenticateToken_distinguishes:
  "((\<exists>m. authenticateToken E h = Rejected 401 m) \<longleftrightarrow> bearer h = None) \<and>
   ((\<exists>m. authenticateToken E h = Rejected 403 m) \<longleftrightarrow>
      (\<exists>t err. bearer h = Some t \<and> jwt_verify E t = Inl err)) \<and>
   (\<forall>t c. bearer h = Some t \<and> jwt_verify E t = Inr c \<longrightarrow> authenticateToken E h = Next c) \<and>
   (\<forall>st m. authenticateToken E h = Rejected st m \<longrightarrow>
      (st = 401 \<and> m = ''Access token required'') \<or> (st = 403 \<and> m = ''Invalid or expired token''))"
  by (auto simp: authenticateToken_def split: option.splits sum.splits)

theorem authenticateToken_distinguishes_witness:
  "bearer None = None \<and> authenticateToken test_env None = Rejected 401 ''Access token required'' \<and>
   bearer (Some ''Bearer bad'') = Some ''bad'' \<and> jwt_verify test_env ''bad'' = Inl ''jwt malformed'' \<and>
   authenticateToken test_env (Some ''Bearer bad'') = Rejected 403 ''Invalid or expired token'' \<and>
   bearer (Some ''Bearer good'') = Some ''good'' \<and>
   authenticateToken test_env (Some ''Bearer good'') =
      Next \<lparr>cl_userId = 1, cl_email = ''a@x.com'', cl_role = ''admin''\<rparr>"
  using authenticateToken_distinguishes [of test_env None]
    authenticateToken_distinguishes [of test_env "Some ''Bearer bad''"]
    authenticateToken_distinguishes [of test_env "Some ''Bearer good''"]
  by (simp add: authenticateToken_def bearer_def test_env_def)

section \<open>Login\<close>

text \<open>
  C2. The credential check of login picks its verifier from the stored value alone: a
  stored credential that starts with \<open>$2\<close> is decided by \<^verbatim>\<open>bcrypt.compare\<close>, any other
  by equality of the supplied password and the stored string, character for character
  (a value that is not a string equals no stored string).
  For a request that reaches the check (email and password present, the lookup answered),
  login succeeds exactly when the chosen verifier accepts, and answers 401 when it
  refuses.
\<close>

theorem login_selects_verifier:
  "isPasswordValid E (JStr p) c
     = (if startsWith c ''$2'' then bcrypt_compare E p c else Inr (p = c)) \<and>
   (\<not> startsWith c ''$2'' \<longrightarrow> isPasswordValid E v c = Inr (v = JStr c)) \<and>
   (truthy email \<and> pw \<noteq> [] \<and> F 0 = None \<and>
    filter (\<lambda>u. u_email u = str email \<and> u_is_active u) (users d) = u # rest \<longrightarrow>
      (startsWith (u_password u) ''$2'' \<longrightarrow>
         ((\<exists>x. login E F email (JStr pw) d = Done 200 ''Login successful'' x)
            \<longleftrightarrow> bcrypt_compare E pw (u_password u) = Inr True)) \<and>
      (\<not> startsWith (u_password u) ''$2'' \<longrightarrow>
         ((\<exists>x. login E F email (JStr pw) d = Done 200 ''Login successful'' x)
            \<longleftrightarrow> pw = u_password u)) \<and>
      (isPasswordValid E (JStr pw) (u_password u) = Inr False \<longrightarrow>
         login E F email (JStr pw) d = Failed 401 ''Invalid email or password''))"
  by (auto simp: login_def isPasswordValid_def bcryptjs_compare_def js_truthy_def
      split: sum.splits)

theorem login_selects_verifier_witness:
  "truthy (Some ''jo@x.com'') \<and> ''secret'' \<noteq> [] \<and> no_faults 0 = None \<and>
   filter (\<lambda>u. u_email u = ''jo@x.com'' \<and> u_is_active u) (users test_db) = [jo_row] \<and>
   u_password jo_row = ''secret'' \<and> \<not> startsWith ''secret'' ''$2'' \<and>
   (\<exists>x. login test_env no_faults (Some ''jo@x.com'') (JStr ''secret'') test_db
          = Done 200 ''Login successful'' x) \<and>
   login test_env no_faults (Some ''jo@x.com'') (JStr ''Secret'') test_db
          = Failed 401 ''Invalid email or password'' \<and>
   filter (\<lambda>u. u_email u = ''a@x.com'' \<and> u_is_active u) (users test_db) = [admin_row] \<and>
   startsWith (u_password admin_row) ''$2'' \<and>
   bcrypt_compare test_env ''pw'' (u_password admin_row) = Inr True \<and>
   (\<exists>x. login test_env no_faults (Some ''a@x.com'') (JStr ''pw'') test_db
          = Done 200 ''Login successful'' x)"
proof -
  have jo: "filter (\<lambda>u. u_email u = ''jo@x.com'' \<and> u_is_active u) (users test_db) = [jo_row]"
    and ad: "filter (\<lambda>u. u_email u = ''a@x.com'' \<and> u_is_active u) (users test_db) = [admin_row]"
    by (simp_all add: test_defs)
  have plain: "u_password jo_row = ''secret'' \<and> \<not> startsWith ''secret'' ''$2''"
    and hashed: "startsWith (u_password admin_row) ''$2'' \<and>
                 bcrypt_compare test_env ''pw'' (u_password admin_row) = Inr True"
    by (simp_all add: test_defs)
  have a: "\<exists>x. login test_env no_faults (Some ''jo@x.com'') (JStr ''secret'') test_db
                 = Done 200 ''Login successful'' x"
    using jo plain
      login_selects_verifier [where E = test_env and F = no_faults and d = test_db
          and email = "Some ''jo@x.com''" and pw = "''secret''" and u = jo_row and rest = "[]",
          THEN conjunct2, THEN conjunct2]
    by (simp add: test_defs)
  have b: "login test_env no_faults (Some ''jo@x.com'') (JStr ''Secret'') test_db
             = Failed 401 ''Invalid email or password''"
    using jo plain
      login_selects_verifier [where E = test_env and F = no_faults and d = test_db
          and email = "Some ''jo@x.com''" and pw = "''Secret''" and u = jo_row and rest = "[]",
          THEN conjunct2, THEN conjunct2]
    by (simp add: isPasswordValid_def test_defs)
  have c: "\<exists>x. login test_env no_faults (Some ''a@x.com'') (JStr ''pw'') test_db
                 = Done 200 ''Login successful'' x"
    using ad hashed
      login_selects_verifier [where E = test_env and F = no_faults and d = test_db
          and email = "Some ''a@x.com''" and pw = "''pw''" and u = admin_row and rest = "[]",
          THEN conjunct2, THEN conjunct2]
    by (simp add: test_defs)
  show ?thesis
    using jo ad plain hashed a b c by (simp add: truthy_def no_faults_def)
qed

text \<open>A request without an email or a password is answered 400 whatever the store holds.\<close>

lemma login_missing_field:
  "\<not> truthy email \<or> \<not> js_truthy password \<Longrightarrow>
   login E F email password d = Failed 400 ''Email and password are required''"
  by (auto simp: login_def)

text \<open>
  With a non-empty string as password the two failures the handler means to hide from
  each other do look alike: no active account, and a verifier that refuses.
\<close>

lemma login_string_failures_alike:
  "truthy email \<Longrightarrow> pw \<noteq> [] \<Longrightarrow> F 0 = None \<Longrightarrow>
   filter (\<lambda>u. u_email u = str email \<and> u_is_active u) (users d) = [] \<or>
   (\<exists>u rest. filter (\<lambda>u. u_email u = str email \<and> u_is_active u) (users d) = u # rest \<and>
              isPasswordValid E (JStr pw) (u_password u) = Inr False) \<Longrightarrow>
   login E F email (JStr pw) d = Failed 401 ''Invalid email or password''"
  by (auto simp: login_def js_truthy_def)

text \<open>
  C8. Login failures are meant to be uniform: the same 401 and message whether no active
  account matches the email or one matches and the credential check fails. The code
  misses this for a password that is truthy and not a string, such as the number 123:
  the guard on missing fields lets it pass; when no active account matches, or the
  matching account has a plaintext credential, the answer is the 401; when the matching
  active account has a hashed credential, \<^verbatim>\<open>bcrypt.compare\<close> throws and the answer is
  500 with \<open>Internal server error\<close>. So the answer tells whether an active account with
  a hashed credential has the email.
\<close>

theorem login_nonstring_password_distinguishes:
  "truthy email \<and> js_truthy password \<and> (\<forall>p. password \<noteq> JStr p) \<and> F 0 = None \<longrightarrow>
     (filter (\<lambda>u. u_email u = str email \<and> u_is_active u) (users d) = []
        \<longrightarrow> login E F email password d = Failed 401 ''Invalid email or password'') \<and>
     (\<forall>u rest. filter (\<lambda>u. u_email u = str email \<and> u_is_active u) (users d) = u # rest \<and>
                startsWith (u_password u) ''$2''
        \<longrightarrow> login E F email password d = Failed 500 ''Internal server error'') \<and>
     (\<forall>u rest. filter (\<lambda>u. u_email u = str email \<and> u_is_active u) (users d) = u # rest \<and>
                \<not> startsWith (u_password u) ''$2''
        \<longrightarrow> login E F email password d = Failed 401 ''Invalid email or password'')"
  by (cases password)
    (auto simp: login_def isPasswordValid_def bcryptjs_compare_def)

theorem login_nonstring_password_distinguishes_witness:
  "truthy (Some ''a@x.com'') \<and> js_truthy (JNum 123) \<and> (\<forall>p. JNum 123 \<noteq> JStr p) \<and>
   no_faults 0 = None \<and>
   filter (\<lambda>u. u_email u = ''a@x.com'' \<and> u_is_active u) (users test_db) = [admin_row] \<and>
   startsWith (u_password admin_row) ''$2'' \<and>
   login test_env no_faults (Some ''a@x.com'') (JNum 123) test_db
     = Failed 500 ''Internal server error'' \<and>
   filter (\<lambda>u. u_email u = ''nobody@x.com'' \<and> u_is_active u) (users test_db) = [] \<and>
   login test_env no_faults (Some ''nobody@x.com'') (JNum 123) test_db
     = Failed 401 ''Invalid email or password'' \<and>
   filter (\<lambda>u. u_email u = ''old@x.com'' \<and> u_is_active u) (users test_db) = [] \<and>
   login test_env no_faults (Some ''old@x.com'') (JNum 123) test_db
     = Failed 401 ''Invalid email or password'' \<and>
   login test_env no_faults (Some ''a@x.com'') (JStr ''wrong'') test_db
     = Failed 401 ''Invalid email or password''"
proof -
  have h: "\<And>e. truthy (Some e) \<and> js_truthy (JNum 123) \<and> (\<forall>p. JNum 123 \<noteq> JStr p) \<and>
      no_faults 0 = None \<longleftrightarrow> e \<noteq> []"
    by (simp add: truthy_def js_truthy_def no_faults_def)
  have ad: "filter (\<lambda>u. u_email u = ''a@x.com'' \<and> u_is_active u) (users test_db) = [admin_row]"
    and no: "filter (\<lambda>u. u_email u = ''nobody@x.com'' \<and> u_is_active u) (users test_db) = []"
    and old: "filter (\<lambda>u. u_email u = ''old@x.com'' \<and> u_is_active u) (users test_db) = []"
    and hashed: "startsWith (u_password admin_row) ''$2''"
    by (simp_all add: test_defs)
  have a: "login test_env no_faults (Some ''a@x.com'') (JNum 123) test_db
             = Failed 500 ''Internal server error''"
    using ad hashed h [of "''a@x.com''"]
      login_nonstring_password_distinguishes [where E = test_env and F = no_faults
        and d = test_db and email = "Some ''a@x.com''" and password = "JNum 123"]
    by (simp add: str_def)
  have b: "login test_env no_faults (Some ''nobody@x.com'') (JNum 123) test_db
             = Failed 401 ''Invalid email or password''"
    using no h [of "''nobody@x.com''"]
      login_nonstring_password_distinguishes [where E = test_env and F = no_faults
        and d = test_db and email = "Some ''nobody@x.com''" and password = "JNum 123"]
    by (simp add: str_def)
  have c: "login test_env no_faults (Some ''old@x.com'') (JNum 123) test_db
             = Failed 401 ''Invalid email or password''"
    using old h [of "''old@x.com''"]
      login_nonstring_password_distinguishes [where E = test_env and F = no_faults
        and d = test_db and email = "Some ''old@x.com''" and password = "JNum 123"]
    by (simp add: str_def)
  have w: "login test_env no_faults (Some ''a@x.com'') (JStr ''wrong'') test_db
             = Failed 401 ''Invalid email or password''"
    by (simp add: login_def isPasswordValid_def bcryptjs_compare_def test_defs)
  show ?thesis
    using ad no old hashed a b c w h [of "''a@x.com''"] by simp
qed

section \<open>Email uniqueness\<close>

lemma insert_user_users:
  "users (insert_user row d) = users d @ [row\<lparr>u_id := next_user_id d\<rparr>]"
  by (simp add: insert_user_def)

lemma insert_user_unique_emails:
  "unique_emails d \<Longrightarrow> filter (\<lambda>u. u_email u = u_email row) (users d) = [] \<Longrightarrow>
   unique_emails (insert_user row d)"
  by (auto simp: unique_emails_def insert_user_def filter_empty_conv)

lemma insert_user_primary_key:
  "primary_key d \<Longrightarrow> primary_key (insert_user row d)"
proof -
  assume pk: "primary_key d"
  then have lt: "\<forall>u \<in> set (users d). u_id u < next_user_id d"
    by (simp add: primary_key_def list_all_iff)
  then have "next_user_id d \<notin> u_id ` set (users d)"
    by (auto simp: image_iff)
  with pk lt show ?thesis
    by (simp add: primary_key_def insert_user_def list_all_iff less_Suc_eq)
qed

text \<open>An UPDATE that sets the email of the rows with one identifier.\<close>

lemma update_email_distinct:
  assumes ids: "distinct (map u_id xs)"
    and ems: "distinct (map u_email xs)"
    and free: "\<forall>u \<in> set xs. u_email u = e \<longrightarrow> u_id u = i"
    and upd: "\<And>u. u_id u = i \<Longrightarrow> Q u \<Longrightarrow> u_email (f u) = e"
    and keep: "\<And>u. \<not> (u_id u = i \<and> Q u) \<Longrightarrow> f u = u"
  shows "distinct (map u_email (map f xs))"
  using ids ems free
proof (induction xs)
  case Nil
  then show ?case by simp
next
  case (Cons x xs)
  have IH: "distinct (map u_email (map f xs))"
    using Cons by simp
  have ems': "distinct (map u_email xs)" and x_new: "u_email x \<notin> set (map u_email xs)"
    using Cons.prems(2) by simp_all
  show ?case
  proof (cases "u_id x = i")
    case True
    then have others: "\<forall>u \<in> set xs. u_id u \<noteq> i"
      using Cons.prems(1) by (auto simp: image_iff)
    then have same: "map f xs = xs"
      by (intro map_idI keep) simp
    have e_new: "e \<notin> set (map u_email xs)"
      using Cons.prems(3) others by auto
    have notin: "u_email (f x) \<notin> set (map u_email xs)"
    proof (cases "Q x")
      case True
      with \<open>u_id x = i\<close> have "u_email (f x) = e" by (rule upd)
      with e_new show ?thesis by simp
    next
      case False
      then have "f x = x" by (intro keep) simp
      with x_new show ?thesis by simp
    qed
    show ?thesis
      unfolding list.map distinct.simps same using notin ems' by blast
  next
    case False
    then have fx: "f x = x" by (intro keep) simp
    from False have ne: "u_email x \<noteq> e"
      using Cons.prems(3) by auto
    have notin: "u_email x \<notin> set (map u_email (map f xs))"
    proof
      assume "u_email x \<in> set (map u_email (map f xs))"
      then obtain u where u: "u \<in> set xs" "u_email x = u_email (f u)"
        by auto
      show False
      proof (cases "u_id u = i \<and> Q u")
        case True
        then have "u_email (f u) = e" by (intro upd) simp_all
        with u(2) ne show False by simp
      next
        case False
        then have "f u = u" by (rule keep)
        with u(2) have "u_email x = u_email u" by simp
        moreover have "u_email u \<in> set (map u_email xs)"
          using u(1) by simp
        ultimately show False using x_new by simp
      qed
    qed
    show ?thesis
      unfolding list.map distinct.simps fx using notin IH by blast
  qed
qed

lemma map_keep_ids:
  "(\<And>u. u_id (f u) = u_id u) \<Longrightarrow> map u_id (map f xs) = map u_id xs"
  by (induction xs) auto

lemma map_keep_bound:
  "(\<And>u. u_id (f u) = u_id u) \<Longrightarrow> list_all (\<lambda>u. u_id u < n) xs \<Longrightarrow>
   list_all (\<lambda>u. u_id u < n) (map f xs)"
  by (induction xs) auto

lemma register_keeps_invariants:
  "unique_emails d \<Longrightarrow> primary_key d \<Longrightarrow>
   unique_emails (snd (register E F b d)) \<and> primary_key (snd (register E F b d))"
  by (auto simp: register_def Let_def insert_user_unique_emails insert_user_primary_key
      split: option.splits)

lemma createStudent_keeps_invariants:
  "unique_emails d \<Longrightarrow> primary_key d \<Longrightarrow>
   unique_emails (snd (createStudent E F b d)) \<and> primary_key (snd (createStudent E F b d))"
proof -
  assume ue: "unique_emails d" and pk: "primary_key d"
  have st: "\<And>d1 ss. unique_emails (d1\<lparr>students := ss\<rparr>) = unique_emails d1"
    "\<And>d1 ss. primary_key (d1\<lparr>students := ss\<rparr>) = primary_key d1"
    by (simp_all add: unique_emails_def primary_key_def)
  show ?thesis
    using ue pk
    by (auto simp: createStudent_def Let_def st insert_user_unique_emails insert_user_primary_key
        split: option.splits)
qed

lemma update_profile_users:
  "users (update_profile F i b d1) = users d1 \<and>
   next_user_id (update_profile F i b d1) = next_user_id d1"
  by (simp add: update_profile_def split: option.splits)

lemma updateStudent_keeps_invariants:
  "unique_emails d \<Longrightarrow> primary_key d \<Longrightarrow>
   unique_emails (snd (updateStudent F i b d)) \<and> primary_key (snd (updateStudent F i b d))"
proof -
  assume ue: "unique_emails d" and pk: "primary_key d"
  let ?g = "\<lambda>u. u\<lparr>u_first_name := str (b_firstName b), u_last_name := str (b_lastName b),
                    u_email := str (b_email b), u_phone := or_null (b_phone b),
                    u_is_active := (b_isActive b \<noteq> Some False)\<rparr>"
  let ?f = "\<lambda>u. if u_id u = i \<and> u_role u = ''student'' then ?g u else u"
  let ?d1 = "d\<lparr>users := map ?f (users d)\<rparr>"
  have ids: "map u_id (map ?f (users d)) = map u_id (users d)"
    by (rule map_keep_ids) simp
  have bound: "list_all (\<lambda>u. u_id u < next_user_id d) (map ?f (users d))"
    using pk by (intro map_keep_bound) (simp_all add: primary_key_def)
  have pk1: "primary_key (update_profile F i b ?d1)"
    using pk ids bound
    by (simp add: primary_key_def update_profile_users del: map_map)
  have ue1: "filter (\<lambda>u. u_email u = str (b_email b) \<and> u_id u \<noteq> i) (users d) = [] \<Longrightarrow>
             unique_emails (update_profile F i b ?d1)"
  proof -
    assume "filter (\<lambda>u. u_email u = str (b_email b) \<and> u_id u \<noteq> i) (users d) = []"
    then have free: "\<forall>u \<in> set (users d). u_email u = str (b_email b) \<longrightarrow> u_id u = i"
      by (auto simp: filter_empty_conv)
    have "distinct (map u_email (map ?f (users d)))"
    proof (rule update_email_distinct [where i = i and e = "str (b_email b)"
          and Q = "\<lambda>u. u_role u = ''student''"])
      show "distinct (map u_id (users d))"
        using pk by (simp add: primary_key_def)
      show "distinct (map u_email (users d))"
        using ue by (simp add: unique_emails_def)
      show "\<forall>u \<in> set (users d). u_email u = str (b_email b) \<longrightarrow> u_id u = i"
        by (rule free)
    qed auto
    moreover have "users (update_profile F i b ?d1) = map ?f (users d)"
      by (simp add: update_profile_users)
    ultimately show ?thesis
      by (simp only: unique_emails_def)
  qed
  show ?thesis
    using ue pk pk1 ue1
    by (simp add: updateStudent_def Let_def split: option.splits)
qed

lemma deleteStudent_users:
  "map u_email (users (snd (deleteStudent F i d))) = map u_email (users d) \<and>
   map u_id (users (snd (deleteStudent F i d))) = map u_id (users d) \<and>
   next_user_id (snd (deleteStudent F i d)) = next_user_id d"
  by (simp add: deleteStudent_def Let_def comp_def split: option.splits
      cong: map_cong)


lemma deleteStudent_keeps_invariants:
  "unique_emails d \<Longrightarrow> primary_key d \<Longrightarrow>
   unique_emails (snd (deleteStudent F i d)) \<and> primary_key (snd (deleteStudent F i d))"
proof -
  assume ue: "unique_emails d" and pk: "primary_key d"
  let ?f = "\<lambda>u. if u_id u = i \<and> u_role u = ''student'' then u\<lparr>u_is_active := False\<rparr> else u"
  have em: "map u_email (map ?f (users d)) = map u_email (users d)"
    by (induction "users d") auto
  have ids: "map u_id (map ?f (users d)) = map u_id (users d)"
    by (rule map_keep_ids) simp
  have bound: "list_all (\<lambda>u. u_id u < next_user_id d) (map ?f (users d))"
    using pk by (intro map_keep_bound) (simp_all add: primary_key_def)
  show ?thesis
    using ue pk em ids bound
    by (simp add: deleteStudent_def Let_def unique_emails_def primary_key_def
        split: option.splits del: map_map)
qed

lemma register_conflict:
  "truthy (r_email b) \<Longrightarrow> truthy (r_password b) \<Longrightarrow> truthy (r_firstName b) \<Longrightarrow>
   truthy (r_lastName b) \<Longrightarrow> truthy (r_role b) \<Longrightarrow> F 0 = None \<Longrightarrow>
   \<exists>u \<in> set (users d). u_email u = str (r_email b) \<Longrightarrow>
   register E F b d = (Failed 409 ''User with this email already exists'', d)"
  by (auto simp: register_def filter_empty_conv)

lemma createStudent_conflict:
  "truthy (b_firstName sb) \<Longrightarrow> truthy (b_lastName sb) \<Longrightarrow> truthy (b_email sb) \<Longrightarrow>
   F 0 = None \<Longrightarrow> \<exists>u \<in> set (users d). u_email u = str (b_email sb) \<Longrightarrow>
   createStudent E F sb d = (Failed 409 ''User with this email already exists'', d)"
  by (auto simp: createStudent_def filter_empty_conv)

lemma register_taken_no_write:
  "\<exists>u \<in> set (users d). u_email u = str (r_email b) \<Longrightarrow> snd (register E F b d) = d"
  by (auto simp: register_def filter_empty_conv split: option.splits)

lemma createStudent_taken_no_write:
  "\<exists>u \<in> set (users d). u_email u = str (b_email sb) \<Longrightarrow> snd (createStudent E F sb d) = d"
  by (auto simp: createStudent_def filter_empty_conv split: option.splits)

lemma createTestStudent_keeps_invariants:
  "unique_emails d \<Longrightarrow> primary_key d \<Longrightarrow>
   unique_emails (snd (createTestStudent E F d)) \<and> primary_key (snd (createTestStudent E F d))"
  by (auto simp: createTestStudent_def Let_def insert_user_unique_emails insert_user_primary_key
      split: option.splits list.splits)

lemma register_missing_field:
  "\<not> truthy (r_email b) \<or> \<not> truthy (r_password b) \<or> \<not> truthy (r_firstName b) \<or>
   \<not> truthy (r_lastName b) \<or> \<not> truthy (r_role b) \<Longrightarrow>
   register E F b d =
     (Failed 400 ''Email, password, first name, last name, and role are required'', d)"
  by (simp add: register_def)

lemma createStudent_missing_field:
  "\<not> truthy (b_firstName sb) \<or> \<not> truthy (b_lastName sb) \<or> \<not> truthy (b_email sb) \<Longrightarrow>
   createStudent E F sb d = (Failed 400 ''First name, last name, and email are required'', d)"
  by (simp add: createStudent_def)

lemma handle_keeps_invariants:
  "unique_emails d \<Longrightarrow> primary_key d \<Longrightarrow>
   unique_emails (handle E r d) \<and> primary_key (handle E r d)"
  by (cases r)
    (simp_all add: register_keeps_invariants createStudent_keeps_invariants
      updateStudent_keeps_invariants deleteStudent_keeps_invariants
      createTestStudent_keeps_invariants)

lemma serve_keeps_invariants:
  "unique_emails d \<Longrightarrow> primary_key d \<Longrightarrow>
   unique_emails (serve E rs d) \<and> primary_key (serve E rs d)"
  by (induction rs arbitrary: d) (simp_all add: handle_keeps_invariants)


text \<open>
  C1, as stated, fails: register answers Conflict only after its check of the required
  fields. With the password missing and the email of an existing account it answers 400.
\<close>

theorem register_missing_password_counterexample:
  "(\<exists>u \<in> set (users test_db). u_email u = ''jo@x.com'') \<and>
   register test_env no_faults (new_register\<lparr>r_email := Some ''jo@x.com'', r_password := None\<rparr>) test_db
     = (Failed 400 ''Email, password, first name, last name, and role are required'', test_db)"
  by (simp add: register_def test_defs)

text \<open>
  C1, amended. For every state of the account store: register with all of email, password,
  first name, last name and role present fails with Conflict (409) whenever some account,
  active or not, already has the requested email, and createStudent with first name,
  last name and email present does the same; with a required field missing each fails
  with InvalidInput (400) first; whether or not the fields are present,
  neither writes anything when the email is already taken. Consequently every writing
  operation (register, createStudent, updateStudent, deleteStudent and the debug route that
  creates the test student), and every sequence of them, preserves the invariant that no two accounts share an email, regardless of the
  active flag, together with the primary key of the table.
\<close>

theorem email_uniqueness_enforced:
  "(truthy (r_email b) \<and> truthy (r_password b) \<and> truthy (r_firstName b) \<and>
    truthy (r_lastName b) \<and> truthy (r_role b) \<and> F 0 = None \<and>
    (\<exists>u \<in> set (users d). u_email u = str (r_email b))
      \<longrightarrow> register E F b d = (Failed 409 ''User with this email already exists'', d)) \<and>
   (truthy (b_firstName sb) \<and> truthy (b_lastName sb) \<and> truthy (b_email sb) \<and> F 0 = None \<and>
    (\<exists>u \<in> set (users d). u_email u = str (b_email sb))
      \<longrightarrow> createStudent E F sb d = (Failed 409 ''User with this email already exists'', d)) \<and>
   ((\<exists>u \<in> set (users d). u_email u = str (r_email b)) \<longrightarrow> snd (register E F b d) = d) \<and>
   ((\<exists>u \<in> set (users d). u_email u = str (b_email sb)) \<longrightarrow> snd (createStudent E F sb d) = d) \<and>
   (unique_emails d \<and> primary_key d
      \<longrightarrow> unique_emails (handle E r d) \<and> primary_key (handle E r d) \<and>
          unique_emails (serve E rs d) \<and> primary_key (serve E rs d)) \<and>
   (\<not> truthy (r_email b) \<or> \<not> truthy (r_password b) \<or> \<not> truthy (r_firstName b) \<or>
    \<not> truthy (r_lastName b) \<or> \<not> truthy (r_role b)
      \<longrightarrow> register E F b d =
            (Failed 400 ''Email, password, first name, last name, and role are required'', d)) \<and>
   (\<not> truthy (b_firstName sb) \<or> \<not> truthy (b_lastName sb) \<or> \<not> truthy (b_email sb)
      \<longrightarrow> createStudent E F sb d =
            (Failed 400 ''First name, last name, and email are required'', d))"
proof (intro conjI impI)
  assume a: "truthy (r_email b) \<and> truthy (r_password b) \<and> truthy (r_firstName b) \<and>
    truthy (r_lastName b) \<and> truthy (r_role b) \<and> F 0 = None \<and>
    (\<exists>u \<in> set (users d). u_email u = str (r_email b))"
  then show "register E F b d = (Failed 409 ''User with this email already exists'', d)"
    by (intro register_conflict) simp_all
next
  assume a: "truthy (b_firstName sb) \<and> truthy (b_lastName sb) \<and> truthy (b_email sb) \<and>
    F 0 = None \<and> (\<exists>u \<in> set (users d). u_email u = str (b_email sb))"
  then show "createStudent E F sb d = (Failed 409 ''User with this email already exists'', d)"
    by (intro createStudent_conflict) simp_all
next
  assume "\<exists>u \<in> set (users d). u_email u = str (r_email b)"
  then show "snd (register E F b d) = d" by (rule register_taken_no_write)
next
  assume "\<exists>u \<in> set (users d). u_email u = str (b_email sb)"
  then show "snd (createStudent E F sb d) = d" by (rule createStudent_taken_no_write)
next
  assume inv: "unique_emails d \<and> primary_key d"
  then show "unique_emails (handle E r d)" by (simp add: handle_keeps_invariants)
  from inv show "primary_key (handle E r d)" by (simp add: handle_keeps_invariants)
  from inv show "unique_emails (serve E rs d)" by (simp add: serve_keeps_invariants)
  from inv show "primary_key (serve E rs d)" by (simp add: serve_keeps_invariants)
next
  assume "\<not> truthy (r_email b) \<or> \<not> truthy (r_password b) \<or> \<not> truthy (r_firstName b) \<or>
    \<not> truthy (r_lastName b) \<or> \<not> truthy (r_role b)"
  then show "register E F b d =
      (Failed 400 ''Email, password, first name, last name, and role are required'', d)"
    by (rule register_missing_field)
next
  assume "\<not> truthy (b_firstName sb) \<or> \<not> truthy (b_lastName sb) \<or> \<not> truthy (b_email sb)"
  then show "createStudent E F sb d =
      (Failed 400 ''First name, last name, and email are required'', d)"
    by (rule createStudent_missing_field)
qed

theorem email_uniqueness_enforced_witness:
  "truthy (Some ''jo@x.com'') \<and> truthy (Some ''old@x.com'') \<and> no_faults 0 = None \<and>
   (\<exists>u \<in> set (users test_db). u_email u = ''jo@x.com'') \<and>
   (\<exists>u \<in> set (users test_db). u_email u = ''old@x.com'' \<and> \<not> u_is_active u) \<and>
   register test_env no_faults (new_register\<lparr>r_email := Some ''jo@x.com''\<rparr>) test_db
     = (Failed 409 ''User with this email already exists'', test_db) \<and>
   createStudent test_env no_faults (amy_body\<lparr>b_email := Some ''old@x.com''\<rparr>) test_db
     = (Failed 409 ''User with this email already exists'', test_db) \<and>
   unique_emails test_db \<and> primary_key test_db \<and>
   map u_email (users (handle test_env (Register no_faults new_register) test_db))
     = [''a@x.com'', ''jo@x.com'', ''old@x.com'', ''new@x.com''] \<and>
   unique_emails (handle test_env (Register no_faults new_register) test_db) \<and>
   unique_emails (serve test_env [Register no_faults new_register,
                                  CreateStudent no_faults amy_body,
                                  UpdateStudent no_faults 2 (amy_body\<lparr>b_email := Some ''new@x.com''\<rparr>),
                                  DeleteStudent no_faults 2] test_db) \<and>
   \<not> truthy (r_password (new_register\<lparr>r_email := Some ''jo@x.com'', r_password := None\<rparr>)) \<and>
   register test_env no_faults (new_register\<lparr>r_email := Some ''jo@x.com'', r_password := None\<rparr>)
       test_db
     = (Failed 400 ''Email, password, first name, last name, and role are required'', test_db) \<and>
   \<not> truthy (b_firstName (amy_body\<lparr>b_firstName := Some []\<rparr>)) \<and>
   createStudent test_env no_faults (amy_body\<lparr>b_firstName := Some []\<rparr>) test_db
     = (Failed 400 ''First name, last name, and email are required'', test_db)"
proof -
  have inv: "unique_emails test_db \<and> primary_key test_db"
    by (simp add: unique_emails_def primary_key_def test_defs)
  have ex: "(\<exists>u \<in> set (users test_db). u_email u = ''jo@x.com'') \<and>
            (\<exists>u \<in> set (users test_db). u_email u = ''old@x.com'' \<and> \<not> u_is_active u)"
    by (simp add: test_defs)
  have r: "register test_env no_faults (new_register\<lparr>r_email := Some ''jo@x.com''\<rparr>) test_db
             = (Failed 409 ''User with this email already exists'', test_db)"
    using email_uniqueness_enforced [where E = test_env and F = no_faults and d = test_db
        and b = "new_register\<lparr>r_email := Some ''jo@x.com''\<rparr>", THEN conjunct1]
    by (simp add: test_defs)
  have c: "createStudent test_env no_faults (amy_body\<lparr>b_email := Some ''old@x.com''\<rparr>) test_db
             = (Failed 409 ''User with this email already exists'', test_db)"
    using email_uniqueness_enforced [where E = test_env and F = no_faults and d = test_db
        and sb = "amy_body\<lparr>b_email := Some ''old@x.com''\<rparr>", THEN conjunct2, THEN conjunct1]
    by (simp add: test_defs)
  have h: "unique_emails (handle test_env (Register no_faults new_register) test_db) \<and>
           unique_emails (serve test_env [Register no_faults new_register,
                                  CreateStudent no_faults amy_body,
                                  UpdateStudent no_faults 2 (amy_body\<lparr>b_email := Some ''new@x.com''\<rparr>),
                                  DeleteStudent no_faults 2] test_db)"
    using inv email_uniqueness_enforced [where E = test_env and d = test_db
        and r = "Register no_faults new_register"
        and rs = "[Register no_faults new_register,
                                  CreateStudent no_faults amy_body,
                                  UpdateStudent no_faults 2 (amy_body\<lparr>b_email := Some ''new@x.com''\<rparr>),
                                  DeleteStudent no_faults 2]"]
    by blast
  have m: "map u_email (users (handle test_env (Register no_faults new_register) test_db))
             = [''a@x.com'', ''jo@x.com'', ''old@x.com'', ''new@x.com'']"
    by (simp add: register_def insert_user_def Let_def test_defs)
  have nr: "\<not> truthy (r_password (new_register\<lparr>r_email := Some ''jo@x.com'', r_password := None\<rparr>))"
    and ns: "\<not> truthy (b_firstName (amy_body\<lparr>b_firstName := Some []\<rparr>))"
    by (simp_all add: truthy_def)
  have r4: "register test_env no_faults
              (new_register\<lparr>r_email := Some ''jo@x.com'', r_password := None\<rparr>) test_db
     = (Failed 400 ''Email, password, first name, last name, and role are required'', test_db)"
    using nr email_uniqueness_enforced [where E = test_env and F = no_faults and d = test_db
        and b = "new_register\<lparr>r_email := Some ''jo@x.com'', r_password := None\<rparr>",
        THEN conjunct2, THEN conjunct2, THEN conjunct2, THEN conjunct2, THEN conjunct2,
        THEN conjunct1]
    by blast
  have c4: "createStudent test_env no_faults (amy_body\<lparr>b_firstName := Some []\<rparr>) test_db
     = (Failed 400 ''First name, last name, and email are required'', test_db)"
    using ns email_uniqueness_enforced [where E = test_env and F = no_faults and d = test_db
        and sb = "amy_body\<lparr>b_firstName := Some []\<rparr>",
        THEN conjunct2, THEN conjunct2, THEN conjunct2, THEN conjunct2, THEN conjunct2,
        THEN conjunct2]
    by blast
  show ?thesis
    using inv ex r c h m nr ns r4 c4 by (simp add: truthy_def no_faults_def)
qed

section \<open>Student creation\<close>

text \<open>
  C3. For every createStudent input with first name, last name and a fresh email present:
  when the email check and the insert of the account row succeed and the insert of the
  profile row fails, with whatever error and whether or not the class lookup failed, the
  handler answers 201 with the identifier of the new account and the student code made
  from it; the new account row is in the users table and the students table is as before.
\<close>

theorem createStudent_survives_profile_failure:
  "truthy (b_firstName b) \<and> truthy (b_lastName b) \<and> truthy (b_email b) \<and>
   (\<forall>u \<in> set (users d). u_email u \<noteq> str (b_email b)) \<and>
   F 0 = None \<and> F 1 = None \<and> F 3 = Some err
   \<longrightarrow> (\<exists>d'. createStudent E F b d =
              (Done 201 ''Student created successfully''
                 \<lparr>cs_studentId_top = next_user_id d, cs_id = next_user_id d,
                  cs_studentId = studentId_of (next_user_id d),
                  cs_firstName = str (b_firstName b), cs_lastName = str (b_lastName b),
                  cs_email = str (b_email b)\<rparr>, d') \<and>
            users d' = users d @
              [\<lparr>u_id = next_user_id d, u_email = str (b_email b),
                u_password = bcrypt_hash E ''student123'', u_role = ''student'',
                u_first_name = str (b_firstName b), u_last_name = str (b_lastName b),
                u_phone = or_null (b_phone b), u_is_active = (b_isActive b \<noteq> Some False),
                u_created_at = clock E\<rparr>] \<and>
            students d' = students d \<and> classes d' = classes d)"
  by (auto simp: createStudent_def Let_def insert_user_def filter_empty_conv)

theorem createStudent_survives_profile_failure_witness:
  "truthy (b_firstName amy_body) \<and> truthy (b_lastName amy_body) \<and> truthy (b_email amy_body) \<and>
   str (b_email amy_body) \<notin> u_email ` set (users test_db) \<and>
   (no_faults(3 := Some ''no such table'')) 0 = None \<and>
   (no_faults(3 := Some ''no such table'')) 1 = None \<and>
   (no_faults(3 := Some ''no such table'')) 3 = Some ''no such table'' \<and>
   fst (createStudent test_env (no_faults(3 := Some ''no such table'')) amy_body test_db) =
      Done 201 ''Student created successfully''
        \<lparr>cs_studentId_top = 4, cs_id = 4, cs_studentId = ''STU004'',
         cs_firstName = ''Amy'', cs_lastName = ''Lee'', cs_email = ''amy@x.com''\<rparr> \<and>
   map u_id (users (snd (createStudent test_env (no_faults(3 := Some ''no such table''))
                           amy_body test_db))) = [1, 2, 3, 4] \<and>
   students (snd (createStudent test_env (no_faults(3 := Some ''no such table''))
                           amy_body test_db)) = [jo_profile]"
proof -
  have hyp: "truthy (b_firstName amy_body) \<and> truthy (b_lastName amy_body) \<and>
      truthy (b_email amy_body) \<and>
      (\<forall>u \<in> set (users test_db). u_email u \<noteq> str (b_email amy_body)) \<and>
      (no_faults(3 := Some ''no such table'')) 0 = None \<and>
      (no_faults(3 := Some ''no such table'')) 1 = None \<and>
      (no_faults(3 := Some ''no such table'')) 3 = Some ''no such table''"
    by (simp add: test_defs)
  have code: "studentId_of 4 = ''STU004''"
    by (simp add: studentId_of_def padStart_def decimal.simps digit_def numeral_2_eq_2)
  from hyp createStudent_survives_profile_failure [where E = test_env and b = amy_body
      and d = test_db and F = "no_faults(3 := Some ''no such table'')" and err = "''no such table''"]
  obtain d' where d': "createStudent test_env (no_faults(3 := Some ''no such table'')) amy_body test_db =
              (Done 201 ''Student created successfully''
                 \<lparr>cs_studentId_top = next_user_id test_db, cs_id = next_user_id test_db,
                  cs_studentId = studentId_of (next_user_id test_db),
                  cs_firstName = str (b_firstName amy_body), cs_lastName = str (b_lastName amy_body),
                  cs_email = str (b_email amy_body)\<rparr>, d')"
    and us: "users d' = users test_db @
              [\<lparr>u_id = next_user_id test_db, u_email = str (b_email amy_body),
                u_password = bcrypt_hash test_env ''student123'', u_role = ''student'',
                u_first_name = str (b_firstName amy_body), u_last_name = str (b_lastName amy_body),
                u_phone = or_null (b_phone amy_body), u_is_active = (b_isActive amy_body \<noteq> Some False),
                u_created_at = clock test_env\<rparr>]"
    and ss: "students d' = students test_db"
    by blast
  have n: "next_user_id test_db = 4" by (simp add: test_defs)
  have "fst (createStudent test_env (no_faults(3 := Some ''no such table'')) amy_body test_db) =
      Done 201 ''Student created successfully''
        \<lparr>cs_studentId_top = 4, cs_id = 4, cs_studentId = ''STU004'',
         cs_firstName = ''Amy'', cs_lastName = ''Lee'', cs_email = ''amy@x.com''\<rparr>"
    unfolding d' n code by (simp add: test_defs)
  moreover have "map u_id (users (snd (createStudent test_env (no_faults(3 := Some ''no such table''))
                           amy_body test_db))) = [1, 2, 3, 4]"
    unfolding d' snd_conv us n by (simp add: test_defs)
  moreover have "students (snd (createStudent test_env (no_faults(3 := Some ''no such table''))
                           amy_body test_db)) = [jo_profile]"
    unfolding d' snd_conv ss by (simp add: test_defs)
  moreover have "str (b_email amy_body) \<notin> u_email ` set (users test_db)"
    by (simp add: test_defs)
  ultimately show ?thesis using hyp by blast
qed



section \<open>Soft deletion\<close>

lemma deleteStudent_ok:
  "F 0 = None \<Longrightarrow> F 1 = None \<Longrightarrow> \<exists>u \<in> set (users d). u_id u = i \<and> u_role u = ''student'' \<Longrightarrow>
   fst (deleteStudent F i d) = Done 200 ''Student deleted successfully'' () \<and>
   users (snd (deleteStudent F i d)) =
     map (\<lambda>u. if u_id u = i \<and> u_role u = ''student'' then u\<lparr>u_is_active := False\<rparr> else u) (users d) \<and>
   length (students (snd (deleteStudent F i d))) = length (students d) \<and>
   classes (snd (deleteStudent F i d)) = classes d"
  by (auto simp: deleteStudent_def Let_def filter_empty_conv split: option.splits)

lemma soft_deleted_still_exists:
  "\<exists>u \<in> set xs. u_id u = i \<and> u_role u = ''student'' \<Longrightarrow>
   \<exists>u \<in> set (map (\<lambda>u. if u_id u = i \<and> u_role u = ''student'' then u\<lparr>u_is_active := False\<rparr> else u) xs).
      u_id u = i \<and> u_role u = ''student''"
  by (induction xs) auto

lemma soft_deleted_inactive:
  assumes "v \<in> set (map (\<lambda>u. if u_id u = i \<and> u_role u = ''student''
                               then u\<lparr>u_is_active := False\<rparr> else u) xs)"
    and "u_id v = i" and "u_role v = ''student''"
  shows "\<not> u_is_active v"
proof -
  from assms(1)
  have "v \<in> (\<lambda>u. if u_id u = i \<and> u_role u = ''student''
                   then u\<lparr>u_is_active := False\<rparr> else u) ` set xs"
    by (simp only: set_map)
  then obtain u
    where v: "v = (if u_id u = i \<and> u_role u = ''student'' then u\<lparr>u_is_active := False\<rparr> else u)"
    by blast
  show ?thesis
  proof (cases "u_id u = i \<and> u_role u = ''student''")
    case True
    with v show ?thesis by simp
  next
    case False
    with v have "v = u" by simp
    with False assms(2,3) show ?thesis by simp
  qed
qed

lemma soft_delete_twice:
  "map (\<lambda>u. if u_id u = i \<and> u_role u = ''student'' then u\<lparr>u_is_active := False\<rparr> else u)
     (map (\<lambda>u. if u_id u = i \<and> u_role u = ''student'' then u\<lparr>u_is_active := False\<rparr> else u) xs)
   = map (\<lambda>u. if u_id u = i \<and> u_role u = ''student'' then u\<lparr>u_is_active := False\<rparr> else u) xs"
  by (induction xs) auto

text \<open>
  C5. When a student account with the identifier exists (active or not) and the two
  statements on the users table are answered, deleteStudent succeeds, removes no row of
  any table, and leaves every student account with that identifier inactive; a second
  call on the result succeeds again and changes no account row. The answer is 404 exactly
  when the lookup is answered and no account row with that identifier and role student
  exists; a row that exists and is inactive is not a 404.
\<close>

theorem deleteStudent_soft_idempotent:
  "(F 0 = None \<and> F 1 = None \<and> G 0 = None \<and> G 1 = None \<and>
    (\<exists>u \<in> set (users d). u_id u = i \<and> u_role u = ''student'')
    \<longrightarrow> fst (deleteStudent F i d) = Done 200 ''Student deleted successfully'' () \<and>
        fst (deleteStudent G i (snd (deleteStudent F i d)))
          = Done 200 ''Student deleted successfully'' () \<and>
        map u_id (users (snd (deleteStudent F i d))) = map u_id (users d) \<and>
        length (students (snd (deleteStudent F i d))) = length (students d) \<and>
        classes (snd (deleteStudent F i d)) = classes d \<and>
        (\<forall>u \<in> set (users (snd (deleteStudent F i d))).
            u_id u = i \<and> u_role u = ''student'' \<longrightarrow> \<not> u_is_active u) \<and>
        (\<exists>u \<in> set (users (snd (deleteStudent F i d))). u_id u = i \<and> u_role u = ''student'') \<and>
        users (snd (deleteStudent G i (snd (deleteStudent F i d))))
          = users (snd (deleteStudent F i d))) \<and>
   ((\<exists>m. fst (deleteStudent F i d) = Failed 404 m) \<longleftrightarrow>
      F 0 = None \<and> \<not> (\<exists>u \<in> set (users d). u_id u = i \<and> u_role u = ''student''))"
proof (intro conjI impI)
  assume a: "F 0 = None \<and> F 1 = None \<and> G 0 = None \<and> G 1 = None \<and>
    (\<exists>u \<in> set (users d). u_id u = i \<and> u_role u = ''student'')"
  let ?f = "\<lambda>u. if u_id u = i \<and> u_role u = ''student'' then u\<lparr>u_is_active := False\<rparr> else u"
  let ?d1 = "snd (deleteStudent F i d)"
  from a have first: "fst (deleteStudent F i d) = Done 200 ''Student deleted successfully'' () \<and>
      users ?d1 = map ?f (users d) \<and> length (students ?d1) = length (students d) \<and>
      classes ?d1 = classes d"
    by (intro deleteStudent_ok) simp_all
  then have us: "users ?d1 = map ?f (users d)" by simp
  have still: "\<exists>u \<in> set (users ?d1). u_id u = i \<and> u_role u = ''student''"
    unfolding us using a by (intro soft_deleted_still_exists) simp
  from a still have second: "fst (deleteStudent G i ?d1) = Done 200 ''Student deleted successfully'' () \<and>
      users (snd (deleteStudent G i ?d1)) = map ?f (users ?d1) \<and>
      length (students (snd (deleteStudent G i ?d1))) = length (students ?d1) \<and>
      classes (snd (deleteStudent G i ?d1)) = classes ?d1"
    by (intro deleteStudent_ok) simp_all
  show "fst (deleteStudent F i d) = Done 200 ''Student deleted successfully'' ()"
    using first by simp
  show "fst (deleteStudent G i ?d1) = Done 200 ''Student deleted successfully'' ()"
    using second by simp
  show "map u_id (users ?d1) = map u_id (users d)"
    unfolding us by (rule map_keep_ids) simp
  show "length (students ?d1) = length (students d)"
    using first by simp
  show "classes ?d1 = classes d"
    using first by simp
  show "\<forall>u \<in> set (users ?d1). u_id u = i \<and> u_role u = ''student'' \<longrightarrow> \<not> u_is_active u"
    unfolding us using soft_deleted_inactive [where i = i and xs = "users d"] by blast
  show "\<exists>u \<in> set (users ?d1). u_id u = i \<and> u_role u = ''student''"
    by (rule still)
  have "users (snd (deleteStudent G i ?d1)) = map ?f (users ?d1)"
    using second by simp
  also have "\<dots> = users ?d1"
    unfolding us by (rule soft_delete_twice)
  finally show "users (snd (deleteStudent G i ?d1)) = users ?d1" .
next
  show "(\<exists>m. fst (deleteStudent F i d) = Failed 404 m) \<longleftrightarrow>
      F 0 = None \<and> \<not> (\<exists>u \<in> set (users d). u_id u = i \<and> u_role u = ''student'')"
    by (auto simp: deleteStudent_def Let_def filter_empty_conv split: option.splits)
qed

theorem deleteStudent_soft_idempotent_witness:
  "no_faults 0 = None \<and> no_faults 1 = None \<and>
   (\<exists>u \<in> set (users test_db). u_id u = 2 \<and> u_role u = ''student'') \<and>
   fst (deleteStudent no_faults 2 test_db) = Done 200 ''Student deleted successfully'' () \<and>
   fst (deleteStudent no_faults 2 (snd (deleteStudent no_faults 2 test_db)))
      = Done 200 ''Student deleted successfully'' () \<and>
   users (snd (deleteStudent no_faults 2 test_db)) = [admin_row, jo_row\<lparr>u_is_active := False\<rparr>, old_row] \<and>
   users (snd (deleteStudent no_faults 2 (snd (deleteStudent no_faults 2 test_db))))
      = [admin_row, jo_row\<lparr>u_is_active := False\<rparr>, old_row] \<and>
   (\<exists>u \<in> set (users test_db). u_id u = 3 \<and> u_role u = ''student'' \<and> \<not> u_is_active u) \<and>
   fst (deleteStudent no_faults 3 test_db) = Done 200 ''Student deleted successfully'' () \<and>
   \<not> (\<exists>u \<in> set (users test_db). u_id u = 1 \<and> u_role u = ''student'') \<and>
   fst (deleteStudent no_faults 1 test_db) = Failed 404 ''Student not found''"
proof -
  have h2: "no_faults 0 = None \<and> no_faults 1 = None \<and> no_faults 0 = None \<and> no_faults 1 = None \<and>
      (\<exists>u \<in> set (users test_db). u_id u = 2 \<and> u_role u = ''student'')"
    by (simp add: test_defs)
  have h3: "no_faults 0 = None \<and> no_faults 1 = None \<and> no_faults 0 = None \<and> no_faults 1 = None \<and>
      (\<exists>u \<in> set (users test_db). u_id u = 3 \<and> u_role u = ''student'')"
    by (simp add: test_defs)
  have h1: "no_faults 0 = None \<and> \<not> (\<exists>u \<in> set (users test_db). u_id u = 1 \<and> u_role u = ''student'')"
    by (simp add: test_defs)
  note t2 = deleteStudent_soft_idempotent [where F = no_faults and G = no_faults and d = test_db
      and i = 2, THEN conjunct1, rule_format, OF h2]
  note t3 = deleteStudent_soft_idempotent [where F = no_faults and G = no_faults and d = test_db
      and i = 3, THEN conjunct1, rule_format, OF h3]
  note t1 = deleteStudent_soft_idempotent [where F = no_faults and G = no_faults and d = test_db
      and i = 1, THEN conjunct2]
  have us: "users (snd (deleteStudent no_faults 2 test_db))
              = [admin_row, jo_row\<lparr>u_is_active := False\<rparr>, old_row]"
    by (simp add: deleteStudent_def Let_def test_defs)
  have nf: "\<exists>m. fst (deleteStudent no_faults 1 test_db) = Failed 404 m"
    using t1 h1 by blast
  then have nf': "fst (deleteStudent no_faults 1 test_db) = Failed 404 ''Student not found''"
    by (auto simp: deleteStudent_def Let_def split: option.splits if_splits)
  have old: "\<exists>u \<in> set (users test_db). u_id u = 3 \<and> u_role u = ''student'' \<and> \<not> u_is_active u"
    by (simp add: test_defs)
  show ?thesis
    using h2 h1 t2 t3 us nf' old by simp
qed


section \<open>Student update\<close>

text \<open>
  C6, as stated, fails: for an identifier that names no student account the existence
  check comes first and the answer is 404, not Conflict, although the email of the payload
  belongs to an account with another identifier.
\<close>

theorem updateStudent_unknown_id_counterexample:
  "(\<exists>u \<in> set (users test_db). u_email u = ''a@x.com'' \<and> u_id u \<noteq> 99) \<and>
   updateStudent no_faults 99 (amy_body\<lparr>b_email := Some ''a@x.com''\<rparr>) test_db
     = (Failed 404 ''Student not found'', test_db)"
  by (simp add: updateStudent_def test_defs)

lemma updateStudent_taken_no_write:
  assumes "\<exists>u \<in> set (users d). u_email u = str (b_email b) \<and> u_id u \<noteq> i"
  shows "snd (updateStudent F i b d) = d"
proof -
  from assms have "filter (\<lambda>u. u_email u = str (b_email b) \<and> u_id u \<noteq> i) (users d) \<noteq> []"
    by (simp add: filter_empty_conv)
  then show ?thesis
    by (simp add: updateStudent_def split: option.splits)
qed

text \<open>
  C6, amended. For every identifier and every update payload whose email equals the email
  of some account with a different identifier, updateStudent leaves the entire store
  unchanged, whatever it answers; and when the payload has first name, last name and email
  present and the identifier names a student account (and the two lookups are answered),
  it fails with Conflict (409).
\<close>

theorem updateStudent_conflict_leaves_store:
  "((\<exists>u \<in> set (users d). u_email u = str (b_email b) \<and> u_id u \<noteq> i)
      \<longrightarrow> snd (updateStudent F i b d) = d) \<and>
   (truthy (b_firstName b) \<and> truthy (b_lastName b) \<and> truthy (b_email b) \<and>
    F 0 = None \<and> F 1 = None \<and>
    (\<exists>u \<in> set (users d). u_id u = i \<and> u_role u = ''student'') \<and>
    (\<exists>u \<in> set (users d). u_email u = str (b_email b) \<and> u_id u \<noteq> i)
      \<longrightarrow> updateStudent F i b d = (Failed 409 ''Email already in use by another user'', d))"
proof (intro conjI impI)
  assume "\<exists>u \<in> set (users d). u_email u = str (b_email b) \<and> u_id u \<noteq> i"
  then show "snd (updateStudent F i b d) = d"
    by (rule updateStudent_taken_no_write)
next
  assume a: "truthy (b_firstName b) \<and> truthy (b_lastName b) \<and> truthy (b_email b) \<and>
    F 0 = None \<and> F 1 = None \<and>
    (\<exists>u \<in> set (users d). u_id u = i \<and> u_role u = ''student'') \<and>
    (\<exists>u \<in> set (users d). u_email u = str (b_email b) \<and> u_id u \<noteq> i)"
  then have "filter (\<lambda>u. u_email u = str (b_email b) \<and> u_id u \<noteq> i) (users d) \<noteq> []"
    and "filter (\<lambda>u. u_id u = i \<and> u_role u = ''student'') (users d) \<noteq> []"
    by (simp_all add: filter_empty_conv)
  with a show "updateStudent F i b d = (Failed 409 ''Email already in use by another user'', d)"
    by (simp add: updateStudent_def)
qed

theorem updateStudent_conflict_leaves_store_witness:
  "truthy (b_firstName amy_body) \<and> truthy (b_lastName amy_body) \<and> truthy (Some ''a@x.com'') \<and>
   no_faults 0 = None \<and> no_faults 1 = None \<and>
   (\<exists>u \<in> set (users test_db). u_id u = 2 \<and> u_role u = ''student'') \<and>
   (\<exists>u \<in> set (users test_db). u_email u = ''a@x.com'' \<and> u_id u \<noteq> 2) \<and>
   updateStudent no_faults 2 (amy_body\<lparr>b_email := Some ''a@x.com''\<rparr>) test_db
     = (Failed 409 ''Email already in use by another user'', test_db) \<and>
   snd (updateStudent no_faults 99 (amy_body\<lparr>b_email := Some ''a@x.com''\<rparr>) test_db) = test_db"
proof -
  have h: "truthy (b_firstName amy_body) \<and> truthy (b_lastName amy_body) \<and>
      truthy (Some ''a@x.com'') \<and> no_faults 0 = None \<and> no_faults 1 = None \<and>
      (\<exists>u \<in> set (users test_db). u_id u = 2 \<and> u_role u = ''student'') \<and>
      (\<exists>u \<in> set (users test_db). u_email u = ''a@x.com'' \<and> u_id u \<noteq> 2)"
    by (simp add: test_defs)
  have h99: "\<exists>u \<in> set (users test_db). u_email u = ''a@x.com'' \<and> u_id u \<noteq> 99"
    by (simp add: test_defs)
  have c: "updateStudent no_faults 2 (amy_body\<lparr>b_email := Some ''a@x.com''\<rparr>) test_db
     = (Failed 409 ''Email already in use by another user'', test_db)"
    using h updateStudent_conflict_leaves_store [where F = no_faults and i = 2 and d = test_db
        and b = "amy_body\<lparr>b_email := Some ''a@x.com''\<rparr>", THEN conjunct2]
    by (simp add: str_def)
  have u: "snd (updateStudent no_faults 99 (amy_body\<lparr>b_email := Some ''a@x.com''\<rparr>) test_db) = test_db"
    using h99 updateStudent_conflict_leaves_store [where F = no_faults and i = 99 and d = test_db
        and b = "amy_body\<lparr>b_email := Some ''a@x.com''\<rparr>", THEN conjunct1]
    by (simp add: str_def)
  show ?thesis using h c u by blast
qed

section \<open>Reading students\<close>

lemma left_join_nonempty: "left_join ms \<noteq> []"
  by (simp add: left_join_def)

lemma joined_nonempty: "joined d u \<noteq> []"
proof -
  obtain s ss where s: "left_join (filter (\<lambda>s. s_user_id s = u_id u) (students d)) = s # ss"
    using left_join_nonempty by (cases "left_join (filter (\<lambda>s. s_user_id s = u_id u) (students d))") auto
  obtain c cs where c: "left_join (case s of None \<Rightarrow> []
      | Some sr \<Rightarrow> filter (\<lambda>c. s_class_id sr = Some (c_id c)) (classes d)) = c # cs"
    using left_join_nonempty by (cases "left_join (case s of None \<Rightarrow> []
      | Some sr \<Rightarrow> filter (\<lambda>c. s_class_id sr = Some (c_id c)) (classes d))") auto
  show ?thesis
    unfolding joined_def s by (simp add: c)
qed

lemma joined_account:
  "v \<in> set (joined d u) \<Longrightarrow>
   v_id v = u_id u \<and> v_is_active v = u_is_active u \<and> v_email v = u_email u"
  by (auto simp: joined_def mk_view_def)

lemma listed_rows:
  assumes "listActiveStudents F d = Plain vs" and "v \<in> set vs"
  shows "\<exists>u \<in> set (users d). u_role u = ''student'' \<and> u_is_active u \<and> v \<in> set (joined d u)"
proof -
  from assms(1) have vs: "vs = concat (map (joined d)
      (rev (sort_key u_created_at (filter (\<lambda>u. u_role u = ''student'' \<and> u_is_active u) (users d)))))"
    by (simp add: listActiveStudents_def split: option.splits)
  from assms(2) obtain u
    where "u \<in> set (rev (sort_key u_created_at
              (filter (\<lambda>u. u_role u = ''student'' \<and> u_is_active u) (users d))))"
      and "v \<in> set (joined d u)"
    unfolding vs by auto
  then show ?thesis by auto
qed

lemma listed_complete:
  assumes "listActiveStudents F d = Plain vs" and "u \<in> set (users d)"
    and "u_role u = ''student''" and "u_is_active u"
  shows "\<exists>v \<in> set vs. v_id v = u_id u"
proof -
  from assms(1) have vs: "vs = concat (map (joined d)
      (rev (sort_key u_created_at (filter (\<lambda>u. u_role u = ''student'' \<and> u_is_active u) (users d)))))"
    by (simp add: listActiveStudents_def split: option.splits)
  obtain v where v: "v \<in> set (joined d u)"
    using joined_nonempty [of d u] by (cases "joined d u") auto
  have "u \<in> set (rev (sort_key u_created_at
              (filter (\<lambda>u. u_role u = ''student'' \<and> u_is_active u) (users d))))"
    using assms(2-4) by simp
  with v have "v \<in> set vs"
    unfolding vs by auto
  with v show ?thesis
    using joined_account by blast
qed

lemma getStudent_found:
  assumes "F 0 = None" and "\<exists>u \<in> set (users d). u_id u = i \<and> u_role u = ''student''"
  shows "\<exists>v. getStudent F i d = Plain v \<and>
           (\<exists>u \<in> set (users d). u_id u = i \<and> u_role u = ''student'' \<and> v \<in> set (joined d u))"
proof -
  let ?us = "filter (\<lambda>u. u_id u = i \<and> u_role u = ''student'') (users d)"
  from assms(2) obtain u us where us: "?us = u # us"
    by (cases ?us) (auto simp: filter_empty_conv)
  then have "u \<in> set ?us" by simp
  then have u: "u \<in> set (users d)" "u_id u = i" "u_role u = ''student''"
    by simp_all
  obtain v vs where v: "joined d u = v # vs"
    using joined_nonempty [of d u] by (cases "joined d u") auto
  have "getStudent F i d = Plain v"
    using assms(1) by (simp add: getStudent_def us v)
  moreover have "v \<in> set (joined d u)"
    by (simp add: v)
  ultimately show ?thesis
    using u by blast
qed


text \<open>
  C7. The two reads filter the active flag differently. Every row that listActiveStudents
  returns is the row of an account with role student and active flag true, so an account
  whose flag is false is never listed, and every active student account is listed.
  getStudent returns the student account with the given identifier whatever its active
  flag is: when such an account exists (and the query is answered) the answer is a view of
  it, carrying its flag. In particular, after deleteStudent has soft-deleted the account,
  getStudent still returns it, now inactive, and listActiveStudents no longer does.
\<close>

theorem read_filters_asymmetric:
  "(listActiveStudents F d = Plain vs \<longrightarrow>
      (\<forall>v \<in> set vs. v_is_active v \<and>
         (\<exists>u \<in> set (users d). u_id u = v_id v \<and> u_role u = ''student'' \<and> u_is_active u)) \<and>
      (\<forall>u \<in> set (users d). u_role u = ''student'' \<and> u_is_active u
         \<longrightarrow> (\<exists>v \<in> set vs. v_id v = u_id u))) \<and>
   (F 0 = None \<and> (\<exists>u \<in> set (users d). u_id u = i \<and> u_role u = ''student'') \<longrightarrow>
      (\<exists>v. getStudent F i d = Plain v \<and> v_id v = i \<and>
         (\<exists>u \<in> set (users d). u_id u = i \<and> u_role u = ''student'' \<and>
             v_is_active v = u_is_active u \<and> v_email v = u_email u))) \<and>
   (F 0 = None \<and> G 0 = None \<and> G 1 = None \<and>
    (\<exists>u \<in> set (users d). u_id u = i \<and> u_role u = ''student'') \<longrightarrow>
      (\<exists>v. getStudent F i (snd (deleteStudent G i d)) = Plain v \<and> v_id v = i \<and> \<not> v_is_active v) \<and>
      (\<forall>ws. listActiveStudents F (snd (deleteStudent G i d)) = Plain ws
         \<longrightarrow> (\<forall>v \<in> set ws. v_id v \<noteq> i)))"
proof (intro conjI impI)
  assume l: "listActiveStudents F d = Plain vs"
  show "\<forall>v \<in> set vs. v_is_active v \<and>
         (\<exists>u \<in> set (users d). u_id u = v_id v \<and> u_role u = ''student'' \<and> u_is_active u)"
  proof
    fix v assume "v \<in> set vs"
    with l obtain u where "u \<in> set (users d)" "u_role u = ''student''" "u_is_active u"
      "v \<in> set (joined d u)"
      using listed_rows by blast
    then show "v_is_active v \<and>
         (\<exists>u \<in> set (users d). u_id u = v_id v \<and> u_role u = ''student'' \<and> u_is_active u)"
      using joined_account [of v d u] by auto
  qed
  show "\<forall>u \<in> set (users d). u_role u = ''student'' \<and> u_is_active u
         \<longrightarrow> (\<exists>v \<in> set vs. v_id v = u_id u)"
    using l listed_complete by blast
next
  assume "F 0 = None \<and> (\<exists>u \<in> set (users d). u_id u = i \<and> u_role u = ''student'')"
  then obtain v u where "getStudent F i d = Plain v" "u \<in> set (users d)" "u_id u = i"
    "u_role u = ''student''" "v \<in> set (joined d u)"
    using getStudent_found [of F d i] by blast
  then show "\<exists>v. getStudent F i d = Plain v \<and> v_id v = i \<and>
         (\<exists>u \<in> set (users d). u_id u = i \<and> u_role u = ''student'' \<and>
             v_is_active v = u_is_active u \<and> v_email v = u_email u)"
    using joined_account [of v d u] by auto
next
  assume a: "F 0 = None \<and> G 0 = None \<and> G 1 = None \<and>
    (\<exists>u \<in> set (users d). u_id u = i \<and> u_role u = ''student'')"
  let ?d1 = "snd (deleteStudent G i d)"
  let ?f = "\<lambda>u. if u_id u = i \<and> u_role u = ''student'' then u\<lparr>u_is_active := False\<rparr> else u"
  from a have us: "users ?d1 = map ?f (users d)"
    using deleteStudent_ok [of G d i] by simp
  have still: "\<exists>u \<in> set (users ?d1). u_id u = i \<and> u_role u = ''student''"
    unfolding us using a by (intro soft_deleted_still_exists) simp
  have off: "\<And>u. u \<in> set (users ?d1) \<Longrightarrow> u_id u = i \<Longrightarrow> u_role u = ''student'' \<Longrightarrow> \<not> u_is_active u"
    unfolding us by (rule soft_deleted_inactive)
  from a still obtain v u where g: "getStudent F i ?d1 = Plain v" "u \<in> set (users ?d1)"
    "u_id u = i" "u_role u = ''student''" "v \<in> set (joined ?d1 u)"
    using getStudent_found [of F ?d1 i] by blast
  from g(2-4) have "\<not> u_is_active u" by (rule off)
  with g show "\<exists>v. getStudent F i ?d1 = Plain v \<and> v_id v = i \<and> \<not> v_is_active v"
    using joined_account [of v ?d1 u] by auto
  show "\<forall>ws. listActiveStudents F ?d1 = Plain ws \<longrightarrow> (\<forall>v \<in> set ws. v_id v \<noteq> i)"
  proof (intro allI impI ballI)
    fix ws v
    assume "listActiveStudents F ?d1 = Plain ws" and "v \<in> set ws"
    then obtain u where u: "u \<in> set (users ?d1)" "u_role u = ''student''" "u_is_active u"
      "v \<in> set (joined ?d1 u)"
      using listed_rows by blast
    then have "v_id v = u_id u"
      using joined_account [of v ?d1 u] by simp
    moreover have "u_id u \<noteq> i"
      using off [of u] u by blast
    ultimately show "v_id v \<noteq> i" by simp
  qed
qed

theorem read_filters_asymmetric_witness:
  "no_faults 0 = None \<and> no_faults 1 = None \<and>
   (\<exists>vs. listActiveStudents no_faults test_db = Plain vs \<and> map v_id vs = [2]) \<and>
   (\<exists>u \<in> set (users test_db). u_id u = 3 \<and> u_role u = ''student'' \<and> \<not> u_is_active u) \<and>
   (\<exists>v. getStudent no_faults 3 test_db = Plain v \<and> v_id v = 3 \<and> \<not> v_is_active v) \<and>
   (\<exists>u \<in> set (users test_db). u_id u = 2 \<and> u_role u = ''student'') \<and>
   (\<exists>v. getStudent no_faults 2 (snd (deleteStudent no_faults 2 test_db)) = Plain v \<and>
        v_id v = 2 \<and> \<not> v_is_active v) \<and>
   listActiveStudents no_faults (snd (deleteStudent no_faults 2 test_db)) = Plain []"
proof -
  have nf: "no_faults 0 = None \<and> no_faults 1 = None"
    by (simp add: no_faults_def)
  have l: "listActiveStudents no_faults test_db = Plain (joined test_db jo_row)"
    by (simp add: listActiveStudents_def test_defs)
  have j: "map v_id (joined test_db jo_row) = [2]"
    by (simp add: joined_def left_join_def mk_view_def test_defs)
  have h3: "\<exists>u \<in> set (users test_db). u_id u = 3 \<and> u_role u = ''student'' \<and> \<not> u_is_active u"
    by (simp add: test_defs)
  have h2: "\<exists>u \<in> set (users test_db). u_id u = 2 \<and> u_role u = ''student''"
    by (simp add: test_defs)
  note t = read_filters_asymmetric [where F = no_faults and G = no_faults and d = test_db]
  have in3: "\<forall>u \<in> set (users test_db). u_id u = 3 \<and> u_role u = ''student'' \<longrightarrow> \<not> u_is_active u"
    by (simp add: test_defs)
  from t [where i = 3, THEN conjunct2, THEN conjunct1] nf h3
  obtain v where v: "getStudent no_faults 3 test_db = Plain v" "v_id v = 3"
    "\<exists>u \<in> set (users test_db). u_id u = 3 \<and> u_role u = ''student'' \<and>
        v_is_active v = u_is_active u \<and> v_email v = u_email u"
    by blast
  with in3 have g3: "\<exists>v. getStudent no_faults 3 test_db = Plain v \<and> v_id v = 3 \<and> \<not> v_is_active v"
    by blast
  from t [where i = 2, THEN conjunct2, THEN conjunct2] nf h2
  have g2: "\<exists>v. getStudent no_faults 2 (snd (deleteStudent no_faults 2 test_db)) = Plain v \<and>
        v_id v = 2 \<and> \<not> v_is_active v"
    by blast
  have l2: "listActiveStudents no_faults (snd (deleteStudent no_faults 2 test_db)) = Plain []"
    by (simp add: listActiveStudents_def deleteStudent_def Let_def test_defs)
  show ?thesis
    using nf l j h3 h2 g3 g2 l2 by simp
qed


section \<open>The profile step of the update\<close>

lemma profile_rows_after_update:
  assumes "s \<in> set (map (\<lambda>s. if s_user_id s = i
                               then s\<lparr>s_roll_number := r, s_class_id := c, s_parent_name := p\<rparr>
                               else s) ss)"
    and "s_user_id s = i"
  shows "s_roll_number s = r \<and> s_class_id s = c \<and> s_parent_name s = p"
proof -
  from assms(1)
  have "s \<in> (\<lambda>s. if s_user_id s = i
                   then s\<lparr>s_roll_number := r, s_class_id := c, s_parent_name := p\<rparr>
                   else s) ` set ss"
    by (simp only: set_map)
  then obtain t
    where s: "s = (if s_user_id t = i
                   then t\<lparr>s_roll_number := r, s_class_id := c, s_parent_name := p\<rparr> else t)"
    by blast
  show ?thesis
  proof (cases "s_user_id t = i")
    case True
    with s show ?thesis by simp
  next
    case False
    with s have "s = t" by simp
    with False assms(2) show ?thesis by simp
  qed
qed

lemma find_class_users:
  "find_class g sec (d\<lparr>users := us\<rparr>) = find_class g sec d"
  by (simp add: find_class_def)

lemma update_profile_ok:
  assumes "truthy (b_grade b) \<and> truthy (b_section b) \<longrightarrow> F 3 = None" and "F 4 = None"
  shows "students (update_profile F i b d1) =
     map (\<lambda>s. if s_user_id s = i
               then s\<lparr>s_roll_number := or_null (b_rollNo b),
                      s_class_id := (if truthy (b_grade b) \<and> truthy (b_section b)
                                     then find_class (str (b_grade b)) (str (b_section b)) d1
                                     else None),
                      s_parent_name := or_null (b_parentName b)\<rparr>
               else s)
         (students d1)"
  using assms by (simp add: update_profile_def)

text \<open>
  C10. When updateStudent reaches its second step and that step's statements are answered,
  every profile row of the account has its roll number, class link and parent name
  overwritten with the values derived from the request: \<^verbatim>\<open>rollNo || null\<close>, the class
  found for grade and section, and \<^verbatim>\<open>parentName || null\<close>. So a payload without rollNo
  stores NULL as the roll number, one without parentName stores NULL as the parent name,
  and the class link becomes NULL whenever grade or section is missing or no active class
  matches them: leaving the fields out clears what was stored.
\<close>

theorem updateStudent_overwrites_profile:
  "truthy (b_firstName b) \<and> truthy (b_lastName b) \<and> truthy (b_email b) \<and>
   F 0 = None \<and> F 1 = None \<and> F 2 = None \<and>
   (truthy (b_grade b) \<and> truthy (b_section b) \<longrightarrow> F 3 = None) \<and> F 4 = None \<and>
   (\<exists>u \<in> set (users d). u_id u = i \<and> u_role u = ''student'') \<and>
   \<not> (\<exists>u \<in> set (users d). u_email u = str (b_email b) \<and> u_id u \<noteq> i)
   \<longrightarrow> fst (updateStudent F i b d) = Done 200 ''Student updated successfully'' () \<and>
       students (snd (updateStudent F i b d)) =
         map (\<lambda>s. if s_user_id s = i
                   then s\<lparr>s_roll_number := or_null (b_rollNo b),
                          s_class_id := (if truthy (b_grade b) \<and> truthy (b_section b)
                                         then find_class (str (b_grade b)) (str (b_section b)) d
                                         else None),
                          s_parent_name := or_null (b_parentName b)\<rparr>
                   else s)
             (students d) \<and>
       (\<forall>s \<in> set (students (snd (updateStudent F i b d))). s_user_id s = i \<longrightarrow>
          (\<not> truthy (b_rollNo b) \<longrightarrow> s_roll_number s = None) \<and>
          (\<not> truthy (b_parentName b) \<longrightarrow> s_parent_name s = None) \<and>
          (\<not> truthy (b_grade b) \<or> \<not> truthy (b_section b) \<or>
           find_class (str (b_grade b)) (str (b_section b)) d = None \<longrightarrow> s_class_id s = None))"
proof (intro impI)
  assume a: "truthy (b_firstName b) \<and> truthy (b_lastName b) \<and> truthy (b_email b) \<and>
   F 0 = None \<and> F 1 = None \<and> F 2 = None \<and>
   (truthy (b_grade b) \<and> truthy (b_section b) \<longrightarrow> F 3 = None) \<and> F 4 = None \<and>
   (\<exists>u \<in> set (users d). u_id u = i \<and> u_role u = ''student'') \<and>
   \<not> (\<exists>u \<in> set (users d). u_email u = str (b_email b) \<and> u_id u \<noteq> i)"
  let ?c = "if truthy (b_grade b) \<and> truthy (b_section b)
            then find_class (str (b_grade b)) (str (b_section b)) d else None"
  let ?d1 = "d\<lparr>users :=
               map (\<lambda>u. if u_id u = i \<and> u_role u = ''student''
                         then u\<lparr>u_first_name := str (b_firstName b),
                                u_last_name := str (b_lastName b),
                                u_email := str (b_email b),
                                u_phone := or_null (b_phone b),
                                u_is_active := (b_isActive b \<noteq> Some False)\<rparr>
                         else u)
                   (users d)\<rparr>"
  from a have ex: "filter (\<lambda>u. u_id u = i \<and> u_role u = ''student'') (users d) \<noteq> []"
    and free: "filter (\<lambda>u. u_email u = str (b_email b) \<and> u_id u \<noteq> i) (users d) = []"
    by (simp_all add: filter_empty_conv)
  have run: "updateStudent F i b d =
      (Done 200 ''Student updated successfully'' (), update_profile F i b ?d1)"
    using a ex free by (simp add: updateStudent_def Let_def)
  have st: "students (update_profile F i b ?d1) =
     map (\<lambda>s. if s_user_id s = i
               then s\<lparr>s_roll_number := or_null (b_rollNo b), s_class_id := ?c,
                      s_parent_name := or_null (b_parentName b)\<rparr>
               else s)
         (students d)"
    using a update_profile_ok [of b F i ?d1] by (simp add: find_class_users)
  have rows: "\<And>s. s \<in> set (students (update_profile F i b ?d1)) \<Longrightarrow> s_user_id s = i \<Longrightarrow>
      s_roll_number s = or_null (b_rollNo b) \<and> s_class_id s = ?c \<and>
      s_parent_name s = or_null (b_parentName b)"
    unfolding st by (rule profile_rows_after_update)
  show "fst (updateStudent F i b d) = Done 200 ''Student updated successfully'' () \<and>
       students (snd (updateStudent F i b d)) =
         map (\<lambda>s. if s_user_id s = i
                   then s\<lparr>s_roll_number := or_null (b_rollNo b), s_class_id := ?c,
                          s_parent_name := or_null (b_parentName b)\<rparr>
                   else s)
             (students d) \<and>
       (\<forall>s \<in> set (students (snd (updateStudent F i b d))). s_user_id s = i \<longrightarrow>
          (\<not> truthy (b_rollNo b) \<longrightarrow> s_roll_number s = None) \<and>
          (\<not> truthy (b_parentName b) \<longrightarrow> s_parent_name s = None) \<and>
          (\<not> truthy (b_grade b) \<or> \<not> truthy (b_section b) \<or>
           find_class (str (b_grade b)) (str (b_section b)) d = None \<longrightarrow> s_class_id s = None))"
  proof (intro conjI ballI impI)
    show "fst (updateStudent F i b d) = Done 200 ''Student updated successfully'' ()"
      by (simp add: run)
    show "students (snd (updateStudent F i b d)) =
         map (\<lambda>s. if s_user_id s = i
                   then s\<lparr>s_roll_number := or_null (b_rollNo b), s_class_id := ?c,
                          s_parent_name := or_null (b_parentName b)\<rparr>
                   else s)
             (students d)"
      unfolding run snd_conv by (rule st)
  next
    fix s
    assume "s \<in> set (students (snd (updateStudent F i b d)))" and "s_user_id s = i"
    then have r: "s_roll_number s = or_null (b_rollNo b) \<and> s_class_id s = ?c \<and>
        s_parent_name s = or_null (b_parentName b)"
      unfolding run snd_conv by (rule rows)
    { assume "\<not> truthy (b_rollNo b)"
      with r show "s_roll_number s = None" by (simp add: or_null_def) }
    { assume "\<not> truthy (b_parentName b)"
      with r show "s_parent_name s = None" by (simp add: or_null_def) }
    { assume "\<not> truthy (b_grade b) \<or> \<not> truthy (b_section b) \<or>
           find_class (str (b_grade b)) (str (b_section b)) d = None"
      with r show "s_class_id s = None" by auto }
  qed
qed

theorem updateStudent_overwrites_profile_witness:
  "truthy (Some ''Jo'') \<and> truthy (Some ''Doe'') \<and> truthy (Some ''jo@x.com'') \<and>
   (\<forall>k. no_faults k = None) \<and>
   (\<exists>u \<in> set (users test_db). u_id u = 2 \<and> u_role u = ''student'') \<and>
   \<not> (\<exists>u \<in> set (users test_db). u_email u = ''jo@x.com'' \<and> u_id u \<noteq> 2) \<and>
   students test_db = [jo_profile] \<and>
   s_roll_number jo_profile = Some ''17'' \<and> s_class_id jo_profile = Some 1 \<and>
   s_parent_name jo_profile = Some ''Pat Doe'' \<and>
   fst (updateStudent no_faults 2
          \<lparr>b_firstName = Some ''Jo'', b_lastName = Some ''Doe'', b_email = Some ''jo@x.com'',
           b_phone = None, b_grade = None, b_section = None, b_rollNo = None,
           b_parentName = None, b_isActive = None\<rparr> test_db)
     = Done 200 ''Student updated successfully'' () \<and>
   students (snd (updateStudent no_faults 2
          \<lparr>b_firstName = Some ''Jo'', b_lastName = Some ''Doe'', b_email = Some ''jo@x.com'',
           b_phone = None, b_grade = None, b_section = None, b_rollNo = None,
           b_parentName = None, b_isActive = None\<rparr> test_db))
     = [jo_profile\<lparr>s_roll_number := None, s_class_id := None, s_parent_name := None\<rparr>]"
proof -
  let ?b = "\<lparr>b_firstName = Some ''Jo'', b_lastName = Some ''Doe'', b_email = Some ''jo@x.com'',
           b_phone = None, b_grade = None, b_section = None, b_rollNo = None,
           b_parentName = None, b_isActive = None\<rparr>"
  have h: "truthy (b_firstName ?b) \<and> truthy (b_lastName ?b) \<and> truthy (b_email ?b) \<and>
   no_faults 0 = None \<and> no_faults 1 = None \<and> no_faults 2 = None \<and>
   (truthy (b_grade ?b) \<and> truthy (b_section ?b) \<longrightarrow> no_faults 3 = None) \<and> no_faults 4 = None \<and>
   (\<exists>u \<in> set (users test_db). u_id u = 2 \<and> u_role u = ''student'') \<and>
   \<not> (\<exists>u \<in> set (users test_db). u_email u = str (b_email ?b) \<and> u_id u \<noteq> 2)"
    by (simp add: test_defs)
  note t = updateStudent_overwrites_profile [where F = no_faults and i = 2 and d = test_db
      and b = ?b, rule_format, OF h]
  have a: "fst (updateStudent no_faults 2 ?b test_db) = Done 200 ''Student updated successfully'' ()"
    using t by blast
  have "students (snd (updateStudent no_faults 2 ?b test_db))
     = map (\<lambda>s. if s_user_id s = 2
                   then s\<lparr>s_roll_number := or_null (b_rollNo ?b),
                          s_class_id := (if truthy (b_grade ?b) \<and> truthy (b_section ?b)
                                         then find_class (str (b_grade ?b)) (str (b_section ?b)) test_db
                                         else None),
                          s_parent_name := or_null (b_parentName ?b)\<rparr>
                   else s)
             (students test_db)"
    using t by blast
  then have b: "students (snd (updateStudent no_faults 2 ?b test_db))
     = [jo_profile\<lparr>s_roll_number := None, s_class_id := None, s_parent_name := None\<rparr>]"
    by (simp add: test_defs)
  have c: "students test_db = [jo_profile] \<and>
   s_roll_number jo_profile = Some ''17'' \<and> s_class_id jo_profile = Some 1 \<and>
   s_parent_name jo_profile = Some ''Pat Doe''"
    by (simp add: test_defs)
  have d: "\<exists>u \<in> set (users test_db). u_id u = 2 \<and> u_role u = ''student''"
    "\<not> (\<exists>u \<in> set (users test_db). u_email u = ''jo@x.com'' \<and> u_id u \<noteq> 2)"
    by (simp_all add: test_defs)
  show ?thesis
    using a b c d by (simp add: truthy_def no_faults_def)
qed

end
